theory Spec2Isabelle
  imports Main "HOL-Library.AList" "HOL-Library.List_Lexorder" "HOL-Library.Sublist" "HOL-Library.Word"
begin

section \<open>Python strings\<close>

text \<open>
  A Python \<open>str\<close> is a sequence of Unicode code points. The field names and labels of
  \<open>sales_scraper.py\<close> are Cyrillic and the address delimiter is the em-dash U+2014, so a
  string is modelled as the list of its code points; \<open>py\<close> embeds an ASCII literal.
\<close>

type_synonym pystr = "nat list"

definition py :: "string \<Rightarrow> pystr" where
  "py s = map of_char s"

text \<open>The code points \<open>str.isspace\<close> accepts; \<open>str.strip()\<close> removes them at both ends.\<close>

definition py_isspace :: "nat \<Rightarrow> bool" where
  "py_isspace c \<longleftrightarrow>
     (9 \<le> c \<and> c \<le> 13) \<or> (28 \<le> c \<and> c \<le> 32) \<or> c = 133 \<or> c = 160 \<or> c = 5760 \<or>
     (8192 \<le> c \<and> c \<le> 8202) \<or> c = 8232 \<or> c = 8233 \<or> c = 8239 \<or> c = 8287 \<or> c = 12288"

definition py_strip :: "pystr \<Rightarrow> pystr" where
  "py_strip s = rev (dropWhile py_isspace (rev (dropWhile py_isspace s)))"

definition startswith :: "pystr \<Rightarrow> pystr \<Rightarrow> bool" where
  "startswith s p \<longleftrightarrow> take (length p) s = p"

definition endswith :: "pystr \<Rightarrow> pystr \<Rightarrow> bool" where
  "endswith s p \<longleftrightarrow> length p \<le> length s \<and> drop (length s - length p) s = p"

text \<open>\<open>sub in s\<close>: \<open>sub\<close> occurs in \<open>s\<close> as a contiguous substring.\<close>

fun py_contains :: "pystr \<Rightarrow> pystr \<Rightarrow> bool" where
  "py_contains sub [] \<longleftrightarrow> sub = []"
| "py_contains sub (c # cs) \<longleftrightarrow> startswith (c # cs) sub \<or> py_contains sub cs"

text \<open>
  \<open>s.split(sep)\<close>: the pieces between the non-overlapping occurrences of \<open>sep\<close>, scanned
  from the left. An empty separator raises \<open>ValueError\<close> (the value \<open>None\<close> here).
\<close>

fun split_from :: "pystr \<Rightarrow> pystr \<Rightarrow> pystr \<Rightarrow> pystr list" where
  "split_from sep cur [] = [cur]"
| "split_from sep cur (c # cs) =
     (if sep \<noteq> [] \<and> startswith (c # cs) sep
      then cur # split_from sep [] (drop (length sep - 1) cs)
      else split_from sep (cur @ [c]) cs)"

definition py_split :: "pystr \<Rightarrow> pystr \<Rightarrow> pystr list option" where
  "py_split s sep = (if sep = [] then None else Some (split_from sep [] s))"

text \<open>
  \<open>s.replace(old, new)\<close>: every non-overlapping occurrence from the left. With an empty
  \<open>old\<close> Python puts \<open>new\<close> before every character and at the end.
\<close>

fun py_replace :: "pystr \<Rightarrow> pystr \<Rightarrow> pystr \<Rightarrow> pystr" where
  "py_replace [] old new = (if old = [] then new else [])"
| "py_replace (c # cs) old new =
     (if old = [] then new @ c # py_replace cs old new
      else if startswith (c # cs) old then new @ py_replace (drop (length old - 1) cs) old new
      else c # py_replace cs old new)"

text \<open>
  The part of a string before its first em-dash, and the part after that dash: the first
  piece of \<open>split\<close> on the em-dash is the one of the string, the second piece the one of
  the rest.
\<close>

definition before_dash :: "pystr \<Rightarrow> pystr" where
  "before_dash t = takeWhile (\<lambda>c. c \<noteq> 8212) t"

definition after_dash :: "pystr \<Rightarrow> pystr" where
  "after_dash t = tl (dropWhile (\<lambda>c. c \<noteq> 8212) t)"


text \<open>\<open>xs[i]\<close> for a non-negative index: \<open>IndexError\<close> (here \<open>None\<close>) out of range.\<close>

definition py_index :: "'a list \<Rightarrow> nat \<Rightarrow> 'a option" where
  "py_index xs i = (if i < length xs then Some (xs ! i) else None)"

text \<open>\<open>str(n)\<close> of an integer, in decimal.\<close>

fun digits :: "nat \<Rightarrow> pystr" where
  "digits n = (if n < 10 then [48 + n] else digits (n div 10) @ [48 + n mod 10])"

declare digits.simps [simp del]

definition py_str :: "int \<Rightarrow> pystr" where
  "py_str i = (if i < 0 then 45 # digits (nat (- i)) else digits (nat i))"


text \<open>
  \<open>url.encode()\<close>: UTF-8. A surrogate code point raises \<open>UnicodeEncodeError\<close>; a number
  above U+10FFFF is no code point at all. Both are \<open>None\<close>.
\<close>

definition utf8_char :: "nat \<Rightarrow> 8 word list option" where
  "utf8_char c =
     (if c < 128 then Some [of_nat c]
      else if c < 2048 then Some [of_nat (192 + c div 64), of_nat (128 + c mod 64)]
      else if 55296 \<le> c \<and> c \<le> 57343 then None
      else if c < 65536 then
        Some [of_nat (224 + c div 4096), of_nat (128 + c div 64 mod 64), of_nat (128 + c mod 64)]
      else if c < 1114112 then
        Some [of_nat (240 + c div 262144), of_nat (128 + c div 4096 mod 64),
              of_nat (128 + c div 64 mod 64), of_nat (128 + c mod 64)]
      else None)"

fun encode :: "pystr \<Rightarrow> 8 word list option" where
  "encode [] = Some []"
| "encode (c # cs) =
     (case utf8_char c of None \<Rightarrow> None
      | Some bs \<Rightarrow> (case encode cs of None \<Rightarrow> None | Some rest \<Rightarrow> Some (bs @ rest)))"


section \<open>The scraper's world\<close>

text \<open>
  A row of the table is a Python dictionary from column name to value, kept in insertion
  order (the order of the columns of the data frame). Values read back from a CSV file are
  carried as text: the scraper never inspects them.
\<close>

type_synonym row = "(pystr \<times> pystr) list"

text \<open>The messages of the module's logger, one constructor per call site.\<close>

datatype event =
    Request_failed_retrying pystr pystr int
      \<comment> \<open>warning, line 64: url, cause, retry count (the backoff is \<open>2 ** retry_count\<close> plus jitter)\<close>
  | Failed_to_retrieve pystr pystr
      \<comment> \<open>error, line 68: url, cause\<close>
  | Found_links_on_page nat pystr
  | Error_parsing_page pystr pystr
  | Skipping_already_scraped pystr
  | Error_extracting_address pystr pystr
  | Error_scraping_ad pystr pystr
  | Loaded_existing_records nat
  | Scraping_page int
  | No_more_links
  | Found_links nat
  | Scraping_ad int nat pystr
  | Progress_saved int nat
  | Scraping_completed nat
  | No_data_collected
  | Loaded_existing_data pystr nat
  | Could_not_load pystr
  | Data_saved pystr nat

text \<open>The arguments of \<open>find\<close>, \<open>find_all\<close> and \<open>find_next\<close>: a tag name and one criterion.\<close>

datatype criterion =
    Any_tag
  | With_text pystr
  | With_class pystr
  | With_attr pystr pystr

datatype query = Query pystr criterion

text \<open>
  What the scraper consumes from outside: the constructor's arguments, the network, the
  HTML parser, the hash function, the float parser, the clock and the CSV reader and
  writer. Each is a parameter, so every theorem holds for any behaviour of them.
  \<^item> \<open>session_get env k url\<close> is the outcome of \<open>session.get(url, timeout=30)\<close> followed by
    \<open>raise_for_status()\<close> when \<open>k\<close> requests have been issued before: \<open>Inr\<close> the text of
    the response, \<open>Inl\<close> the message of the \<open>RequestException\<close>.
  \<^item> \<open>BeautifulSoup env text\<close> is the parsed document, or \<open>Inl\<close> the exception.
  \<^item> \<open>soup_find\<close>, \<open>soup_find_all\<close> search a document; \<open>find_next\<close>, \<open>tag_find\<close>,
    \<open>tag_find_all\<close>, \<open>tag_text\<close>, \<open>tag_attr\<close> are the methods of an element.
  \<^item> \<open>str_int_float env p\<close> is \<open>str(int(float(p)))\<close>, \<open>None\<close> when it raises.
  \<^item> \<open>today_dmy\<close>, \<open>today_ymd\<close> are \<open>date.today()\<close> formatted with \<open>%d/%m/%Y\<close> and
    \<open>%Y%m%d\<close>.
  The calls of \<open>time.sleep\<close> only delay and are left out.
\<close>

record ('d, 'e) env =
  base_url :: pystr
  max_pages :: int
  session_get :: "nat \<Rightarrow> pystr \<Rightarrow> pystr + pystr"
  BeautifulSoup :: "pystr \<Rightarrow> pystr + 'd"
  soup_find :: "'d \<Rightarrow> query \<Rightarrow> 'e option"
  soup_find_all :: "'d \<Rightarrow> query \<Rightarrow> 'e list"
  find_next :: "'e \<Rightarrow> query \<Rightarrow> 'e option"
  tag_find :: "'e \<Rightarrow> query \<Rightarrow> 'e option"
  tag_find_all :: "'e \<Rightarrow> query \<Rightarrow> 'e list"
  tag_text :: "'e \<Rightarrow> pystr"
  tag_attr :: "'e \<Rightarrow> pystr \<Rightarrow> pystr option"
  md5_hexdigest :: "8 word list \<Rightarrow> pystr"
  str_int_float :: "pystr \<Rightarrow> pystr option"
  today_dmy :: pystr
  today_ymd :: pystr
  read_csv :: "pystr \<Rightarrow> pystr + row list"
  to_csv :: "row list \<Rightarrow> pystr"

text \<open>
  The state the scraper reads and writes: the set \<open>self.scraped_urls\<close>, the cache file
  (\<open>None\<close> while it does not exist), the CSV files of the working directory by name, and
  three traces: the URLs requested, the tables handed to \<open>save_data\<close>, and the log.
\<close>

record world =
  scraped_urls :: "pystr set"
  cache_file :: "pystr option"
  csv_files :: "(pystr \<times> pystr) list"
  fetches :: "pystr list"
  written :: "(pystr \<times> row list) list"
  logged :: "event list"

definition log_event :: "event \<Rightarrow> world \<Rightarrow> world" where
  "log_event e s = s\<lparr>logged := logged s @ [e]\<rparr>"

definition MAX_RETRIES :: int where
  "MAX_RETRIES = 3"

definition NA :: pystr where
  "NA = py ''N/A''"


section \<open>The HTTP client\<close>

function make_request :: "('d, 'e) env \<Rightarrow> world \<Rightarrow> pystr \<Rightarrow> int \<Rightarrow> pystr option \<times> world" where
  "make_request env s url retry_count =
     (case session_get env (length (fetches s)) url of
        Inr text \<Rightarrow> (Some text, s\<lparr>fetches := fetches s @ [url]\<rparr>)
      | Inl e \<Rightarrow>
          if retry_count < MAX_RETRIES
          then make_request env
                 (log_event (Request_failed_retrying url e retry_count) (s\<lparr>fetches := fetches s @ [url]\<rparr>))
                 url (retry_count + 1)
          else (None, log_event (Failed_to_retrieve url e) (s\<lparr>fetches := fetches s @ [url]\<rparr>)))"
  by pat_completeness auto

termination
  by (relation "measure (\<lambda>(env, s, url, retry_count). nat (MAX_RETRIES - retry_count))") auto

declare make_request.simps [simp del]


section \<open>Listing pages\<close>

definition scrape_page :: "('d, 'e) env \<Rightarrow> world \<Rightarrow> pystr \<Rightarrow> pystr list \<times> world" where
  "scrape_page env s url =
     (case make_request env s url 0 of
        (None, s1) \<Rightarrow> ([], s1)
      | (Some text, s1) \<Rightarrow>
          (case BeautifulSoup env text of
             Inl e \<Rightarrow> ([], log_event (Error_parsing_page url e) s1)
           | Inr soup \<Rightarrow>
               (let ad_links = soup_find_all env soup (Query (py ''a'') (With_class (py ''mask'')));
                    links = List.map_filter (\<lambda>link. tag_attr env link (py ''href'')) ad_links
                in (links, log_event (Found_links_on_page (length links) url) s1))))"


section \<open>Field extraction\<close>

text \<open>
  The labels searched for (lines 126 to 137), with the code points of their Cyrillic
  letters; the trailing 58 is the colon, 32 the space.
\<close>

abbreviation L_Shal :: pystr where "L_Shal \<equiv> [1064, 1072, 1083, 58]"
abbreviation L_Tagt :: pystr where "L_Tagt \<equiv> [1058, 1072, 1075, 1090, 58]"
abbreviation L_Garaj :: pystr where "L_Garaj \<equiv> [1043, 1072, 1088, 1072, 1078, 58]"
abbreviation L_Tsonh :: pystr where "L_Tsonh \<equiv> [1062, 1086, 1085, 1093, 58]"
abbreviation L_Haalga :: pystr where "L_Haalga \<equiv> [1061, 1072, 1072, 1083, 1075, 1072, 58]"
abbreviation L_Tsonhny_too :: pystr where
  "L_Tsonhny_too \<equiv> [1062, 1086, 1085, 1093, 1085, 1099, 32, 1090, 1086, 1086, 58]"
abbreviation L_Barilgynyavts :: pystr where
  "L_Barilgynyavts \<equiv> [1041, 1072, 1088, 1080, 1083, 1075, 1099, 1085, 1103, 1074, 1094]"
abbreviation L_Ashiglaltandorsonon :: pystr where
  "L_Ashiglaltandorsonon \<equiv> [1040, 1096, 1080, 1075, 1083, 1072, 1083, 1090, 1072, 1085, 1076,
     1086, 1088, 1089, 1086, 1085, 1086, 1085, 58]"
abbreviation L_Barilgyn_davhar :: pystr where
  "L_Barilgyn_davhar \<equiv> [1041, 1072, 1088, 1080, 1083, 1075, 1099, 1085, 32, 1076, 1072, 1074,
     1093, 1072, 1088, 58]"
abbreviation L_Talbai :: pystr where "L_Talbai \<equiv> [1058, 1072, 1083, 1073, 1072, 1081, 58]"
abbreviation L_Heden_davhart :: pystr where
  "L_Heden_davhart \<equiv> [1061, 1101, 1076, 1101, 1085, 32, 1076, 1072, 1074, 1093, 1072, 1088,
     1090, 58]"
abbreviation L_Lizingeeravahbolomj :: pystr where
  "L_Lizingeeravahbolomj \<equiv> [1051, 1080, 1079, 1080, 1085, 1075, 1101, 1101, 1088, 1072, 1074,
     1072, 1093, 1073, 1086, 1083, 1086, 1084, 1078, 58]"

text \<open>The keys of the dictionary \<open>ad_data\<close> (lines 125 to 149), in the order of the source.\<close>

abbreviation K_Shal :: pystr where "K_Shal \<equiv> [1064, 1072, 1083]"
abbreviation K_Tagt :: pystr where "K_Tagt \<equiv> [1058, 1072, 1075, 1090]"
abbreviation K_Garaj :: pystr where "K_Garaj \<equiv> [1043, 1072, 1088, 1072, 1078]"
abbreviation K_Tsonh :: pystr where "K_Tsonh \<equiv> [1062, 1086, 1085, 1093]"
abbreviation K_Haalga :: pystr where "K_Haalga \<equiv> [1061, 1072, 1072, 1083, 1075, 1072]"
abbreviation K_Tsonhnytoo :: pystr where
  "K_Tsonhnytoo \<equiv> [1062, 1086, 1085, 1093, 1085, 1099, 1090, 1086, 1086]"
abbreviation K_Barilgynyavts :: pystr where
  "K_Barilgynyavts \<equiv> [1041, 1072, 1088, 1080, 1083, 1075, 1099, 1085, 1103, 1074, 1094]"
abbreviation K_Ashiglaltandorsonon :: pystr where
  "K_Ashiglaltandorsonon \<equiv> [1040, 1096, 1080, 1075, 1083, 1072, 1083, 1090, 1072, 1085, 1076,
     1086, 1088, 1089, 1086, 1085, 1086, 1085]"
abbreviation K_Barilgyndavhar :: pystr where
  "K_Barilgyndavhar \<equiv> [1041, 1072, 1088, 1080, 1083, 1075, 1099, 1085, 1076, 1072, 1074, 1093,
     1072, 1088]"
abbreviation K_Talbai :: pystr where "K_Talbai \<equiv> [1058, 1072, 1083, 1073, 1072, 1081]"
abbreviation K_Hedendavhart :: pystr where
  "K_Hedendavhart \<equiv> [1061, 1101, 1076, 1101, 1085, 1076, 1072, 1074, 1093, 1072, 1088, 1090]"
abbreviation K_Lizingeeravahbolomj :: pystr where
  "K_Lizingeeravahbolomj \<equiv> [1051, 1080, 1079, 1080, 1085, 1075, 1101, 1101, 1088, 1072, 1074,
     1072, 1093, 1073, 1086, 1083, 1086, 1084, 1078]"
abbreviation K_Duureg :: pystr where "K_Duureg \<equiv> [1044, 1199, 1199, 1088, 1101, 1075]"
abbreviation K_Bairshil :: pystr where "K_Bairshil \<equiv> [1041, 1072, 1081, 1088, 1096, 1080, 1083]"
abbreviation K_Uzsen :: pystr where "K_Uzsen \<equiv> [1198, 1079, 1089, 1101, 1085]"
abbreviation K_Scraped_date :: pystr where
  "K_Scraped_date \<equiv> [83, 99, 114, 97, 112, 101, 100, 95, 100, 97, 116, 101]"
abbreviation K_link :: pystr where "K_link \<equiv> [108, 105, 110, 107]"
abbreviation K_Une :: pystr where "K_Une \<equiv> [1198, 1085, 1101]"
abbreviation K_OrooniiToo :: pystr where
  "K_OrooniiToo \<equiv> [1256, 1088, 1257, 1257, 1085, 1080, 1081, 1058, 1086, 1086]"
abbreviation K_Zaryg_garchig :: pystr where
  "K_Zaryg_garchig \<equiv> [1047, 1072, 1088, 1099, 1075, 32, 1075, 1072, 1088, 1095, 1080, 1075]"
abbreviation K_Zaryn_tailbar :: pystr where
  "K_Zaryn_tailbar \<equiv> [1047, 1072, 1088, 1099, 1085, 32, 1090, 1072, 1081, 1083, 1073, 1072, 1088]"
abbreviation K_Niitelsen :: pystr where
  "K_Niitelsen \<equiv> [1053, 1080, 1081, 1090, 1101, 1083, 1089, 1101, 1085]"
abbreviation K_ad_id :: pystr where "K_ad_id \<equiv> [97, 100, 95, 105, 100]"

text \<open>The em-dash U+2014, and the prefix \<open>Niitelsen: \<close> removed from the posted date.\<close>

abbreviation EM_DASH :: pystr where "EM_DASH \<equiv> [8212]"

abbreviation POSTED_PREFIX :: pystr where
  "POSTED_PREFIX \<equiv> [1053, 1080, 1081, 1090, 1101, 1083, 1089, 1101, 1085, 58, 32]"

definition get_value_chars :: "('d, 'e) env \<Rightarrow> 'd \<Rightarrow> pystr \<Rightarrow> pystr" where
  "get_value_chars env soup key =
     (case soup_find env soup (Query (py ''span'') (With_text key)) of
        None \<Rightarrow> NA
      | Some element \<Rightarrow>
          (case find_next env element (Query (py ''a'') (With_class (py ''value-chars''))) of
             None \<Rightarrow> NA
           | Some value_chars \<Rightarrow> py_strip (tag_text env value_chars)))"

definition get_text_value :: "('d, 'e) env \<Rightarrow> 'd \<Rightarrow> pystr \<Rightarrow> pystr" where
  "get_text_value env soup key =
     (case soup_find env soup (Query (py ''span'') (With_text key)) of
        None \<Rightarrow> NA
      | Some v \<Rightarrow>
          (case find_next env v (Query (py ''span'') Any_tag) of
             None \<Rightarrow> NA
           | Some next_span \<Rightarrow>
               if tag_find env next_span (Query (py ''a'') (With_class (py ''value-chars''))) = None
               then py_strip (tag_text env next_span)
               else NA))"

text \<open>\<open>hashlib.md5(url.encode()).hexdigest()\<close>; \<open>Inl\<close> is the exception of \<open>encode\<close>.\<close>

definition generate_ad_id :: "('d, 'e) env \<Rightarrow> pystr \<Rightarrow> pystr + pystr" where
  "generate_ad_id env url =
     (case encode url of
        None \<Rightarrow> Inl (py ''UnicodeEncodeError'')
      | Some bytes \<Rightarrow> Inr (md5_hexdigest env bytes))"

text \<open>The dictionary literal of lines 125 to 149.\<close>

definition new_ad_data :: "('d, 'e) env \<Rightarrow> 'd \<Rightarrow> pystr \<Rightarrow> pystr + row" where
  "new_ad_data env soup url =
     (case generate_ad_id env url of
        Inl e \<Rightarrow> Inl e
      | Inr ad_id \<Rightarrow> Inr
         [(K_Shal, get_text_value env soup L_Shal),
          (K_Tagt, get_text_value env soup L_Tagt),
          (K_Garaj, get_text_value env soup L_Garaj),
          (K_Tsonh, get_text_value env soup L_Tsonh),
          (K_Haalga, get_text_value env soup L_Haalga),
          (K_Tsonhnytoo, get_value_chars env soup L_Tsonhny_too),
          (K_Barilgynyavts, get_text_value env soup L_Barilgynyavts),
          (K_Ashiglaltandorsonon, get_text_value env soup L_Ashiglaltandorsonon),
          (K_Barilgyndavhar, get_value_chars env soup L_Barilgyn_davhar),
          (K_Talbai, get_value_chars env soup L_Talbai),
          (K_Hedendavhart, get_value_chars env soup L_Heden_davhart),
          (K_Lizingeeravahbolomj, get_text_value env soup L_Lizingeeravahbolomj),
          (K_Duureg, NA),
          (K_Bairshil, NA),
          (K_Uzsen, NA),
          (K_Scraped_date, today_dmy env),
          (K_link, url),
          (K_Une, NA),
          (K_OrooniiToo, NA),
          (K_Zaryg_garchig, NA),
          (K_Zaryn_tailbar, NA),
          (K_Niitelsen, NA),
          (K_ad_id, ad_id)])"

text \<open>
  Lines 151 to 159. The assignments run in order inside their own \<open>try\<close>: an exception
  of \<open>split\<close> or of an index leaves what was assigned before it and logs a warning.
\<close>

definition handle_address :: "('d, 'e) env \<Rightarrow> 'd \<Rightarrow> pystr \<Rightarrow> row \<times> world \<Rightarrow> row \<times> world" where
  "handle_address env soup url = (\<lambda>(ad_data, s).
     (case soup_find env soup (Query (py ''span'') (With_attr (py ''itemprop'') (py ''address''))) of
        None \<Rightarrow> (ad_data, s)
      | Some address \<Rightarrow>
          if py_contains EM_DASH (tag_text env address) then
            (case py_split (tag_text env address) EM_DASH of
               None \<Rightarrow> (ad_data, log_event (Error_extracting_address url (py ''ValueError'')) s)
             | Some parts \<Rightarrow>
                 (case py_index parts 0 of
                    None \<Rightarrow> (ad_data, log_event (Error_extracting_address url (py ''IndexError'')) s)
                  | Some p0 \<Rightarrow>
                      (case py_index parts 1 of
                         None \<Rightarrow>
                           (AList.update K_Duureg (py_strip p0) ad_data,
                            log_event (Error_extracting_address url (py ''IndexError'')) s)
                       | Some p1 \<Rightarrow>
                           (AList.update K_Bairshil (py_strip p1)
                              (AList.update K_Duureg (py_strip p0) ad_data), s))))
          else (ad_data, s)))"

definition extract_views :: "('d, 'e) env \<Rightarrow> 'd \<Rightarrow> row \<Rightarrow> row" where
  "extract_views env soup ad_data =
     (case soup_find env soup (Query (py ''span'') (With_class (py ''counter-views''))) of
        None \<Rightarrow> ad_data
      | Some views_element \<Rightarrow>
          AList.update K_Uzsen (py_replace (py_strip (tag_text env views_element)) [32] []) ad_data)"

definition extract_price :: "('d, 'e) env \<Rightarrow> 'd \<Rightarrow> row \<Rightarrow> row" where
  "extract_price env soup ad_data =
     (case soup_find env soup (Query (py ''meta'') (With_attr (py ''itemprop'') (py ''price''))) of
        None \<Rightarrow> ad_data
      | Some price_meta \<Rightarrow>
          (let price = (case tag_attr env price_meta (py ''content'') of None \<Rightarrow> NA | Some c \<Rightarrow> c);
               price' = (case str_int_float env price of None \<Rightarrow> price | Some p \<Rightarrow> p)
           in AList.update K_Une price' ad_data))"

definition extract_rooms :: "('d, 'e) env \<Rightarrow> 'd \<Rightarrow> row \<Rightarrow> row" where
  "extract_rooms env soup ad_data =
     (case soup_find env soup (Query (py ''div'') (With_class (py ''wrap js-single-item__location''))) of
        None \<Rightarrow> ad_data
      | Some location_div \<Rightarrow>
          (case tag_find_all env location_div (Query (py ''span'') Any_tag) of
             [] \<Rightarrow> ad_data
           | sp # sps \<Rightarrow>
               AList.update K_OrooniiToo (py_strip (tag_text env (last (sp # sps)))) ad_data))"

definition extract_title :: "('d, 'e) env \<Rightarrow> 'd \<Rightarrow> row \<Rightarrow> row" where
  "extract_title env soup ad_data =
     (case soup_find env soup (Query (py ''h1'') (With_class (py ''title-announcement''))) of
        None \<Rightarrow> ad_data
      | Some title_element \<Rightarrow>
          AList.update K_Zaryg_garchig (py_replace (py_strip (tag_text env title_element)) [10] []) ad_data)"

definition extract_description :: "('d, 'e) env \<Rightarrow> 'd \<Rightarrow> row \<Rightarrow> row" where
  "extract_description env soup ad_data =
     (case soup_find env soup (Query (py ''div'') (With_class (py ''announcement-description''))) of
        None \<Rightarrow> ad_data
      | Some desc_element \<Rightarrow>
          AList.update K_Zaryn_tailbar (py_replace (py_strip (tag_text env desc_element)) [10] []) ad_data)"

definition extract_posted :: "('d, 'e) env \<Rightarrow> 'd \<Rightarrow> row \<Rightarrow> row" where
  "extract_posted env soup ad_data =
     (case soup_find env soup (Query (py ''span'') (With_class (py ''date-meta''))) of
        None \<Rightarrow> ad_data
      | Some date_element \<Rightarrow>
          AList.update K_Niitelsen (py_replace (py_strip (tag_text env date_element)) POSTED_PREFIX [])
            ad_data)"


text \<open>The keys of a record, and for each extracted field the element the source looks for first.\<close>

definition FIELDS :: "pystr list" where
  "FIELDS = [K_Shal, K_Tagt, K_Garaj, K_Tsonh, K_Haalga, K_Tsonhnytoo, K_Barilgynyavts,
     K_Ashiglaltandorsonon, K_Barilgyndavhar, K_Talbai, K_Hedendavhart, K_Lizingeeravahbolomj,
     K_Duureg, K_Bairshil, K_Uzsen, K_Scraped_date, K_link, K_Une, K_OrooniiToo,
     K_Zaryg_garchig, K_Zaryn_tailbar, K_Niitelsen, K_ad_id]"

definition field_sources :: "(pystr \<times> query) list" where
  "field_sources =
     [(K_Shal, Query (py ''span'') (With_text L_Shal)),
      (K_Tagt, Query (py ''span'') (With_text L_Tagt)),
      (K_Garaj, Query (py ''span'') (With_text L_Garaj)),
      (K_Tsonh, Query (py ''span'') (With_text L_Tsonh)),
      (K_Haalga, Query (py ''span'') (With_text L_Haalga)),
      (K_Tsonhnytoo, Query (py ''span'') (With_text L_Tsonhny_too)),
      (K_Barilgynyavts, Query (py ''span'') (With_text L_Barilgynyavts)),
      (K_Ashiglaltandorsonon, Query (py ''span'') (With_text L_Ashiglaltandorsonon)),
      (K_Barilgyndavhar, Query (py ''span'') (With_text L_Barilgyn_davhar)),
      (K_Talbai, Query (py ''span'') (With_text L_Talbai)),
      (K_Hedendavhart, Query (py ''span'') (With_text L_Heden_davhart)),
      (K_Lizingeeravahbolomj, Query (py ''span'') (With_text L_Lizingeeravahbolomj)),
      (K_Duureg, Query (py ''span'') (With_attr (py ''itemprop'') (py ''address''))),
      (K_Bairshil, Query (py ''span'') (With_attr (py ''itemprop'') (py ''address''))),
      (K_Uzsen, Query (py ''span'') (With_class (py ''counter-views''))),
      (K_Une, Query (py ''meta'') (With_attr (py ''itemprop'') (py ''price''))),
      (K_OrooniiToo, Query (py ''div'') (With_class (py ''wrap js-single-item__location''))),
      (K_Zaryg_garchig, Query (py ''h1'') (With_class (py ''title-announcement''))),
      (K_Zaryn_tailbar, Query (py ''div'') (With_class (py ''announcement-description''))),
      (K_Niitelsen, Query (py ''span'') (With_class (py ''date-meta'')))]"


section \<open>The dedup cache\<close>


definition save_scraped_url :: "world \<Rightarrow> pystr \<Rightarrow> world" where
  "save_scraped_url s url =
     s\<lparr>cache_file := Some ((case cache_file s of None \<Rightarrow> [] | Some content \<Rightarrow> content) @ url @ [10]),
       scraped_urls := insert url (scraped_urls s)\<rparr>"



section \<open>One ad\<close>

definition scrape_ad :: "('d, 'e) env \<Rightarrow> world \<Rightarrow> pystr \<Rightarrow> row option \<times> world" where
  "scrape_ad env s url =
     (if url \<in> scraped_urls s then (None, log_event (Skipping_already_scraped url) s)
      else
        (case make_request env s url 0 of
           (None, s1) \<Rightarrow> (None, s1)
         | (Some text, s1) \<Rightarrow>
             (case BeautifulSoup env text of
                Inl e \<Rightarrow> (None, log_event (Error_scraping_ad url e) s1)
              | Inr soup \<Rightarrow>
                  (case new_ad_data env soup url of
                     Inl e \<Rightarrow> (None, log_event (Error_scraping_ad url e) s1)
                   | Inr ad_data \<Rightarrow>
                       (case handle_address env soup url (ad_data, s1) of
                          (ad_data1, s2) \<Rightarrow>
                            (Some (extract_posted env soup
                                    (extract_description env soup
                                      (extract_title env soup
                                        (extract_rooms env soup
                                          (extract_price env soup
                                            (extract_views env soup ad_data1)))))),
                             save_scraped_url s2 url))))))"


section \<open>The store\<close>

abbreviation CSV_PREFIX :: pystr where "CSV_PREFIX \<equiv> py ''unegui_sales_data_''"

abbreviation CSV_SUFFIX :: pystr where "CSV_SUFFIX \<equiv> py ''.csv''"

text \<open>
  The data frame is the list of its rows; \<open>pd.DataFrame()\<close> is the empty list. Whatever
  \<open>os.listdir\<close> or \<open>pd.read_csv\<close> raise is caught and logged.
\<close>

definition load_existing_data :: "('d, 'e) env \<Rightarrow> world \<Rightarrow> row list \<times> world" where
  "load_existing_data env s =
     (case filter (\<lambda>f. startswith f CSV_PREFIX \<and> endswith f CSV_SUFFIX) (map fst (csv_files s)) of
        [] \<Rightarrow> ([], s)
      | f # fs \<Rightarrow>
          (let latest_file = fold max fs f in
           case map_of (csv_files s) latest_file of
             None \<Rightarrow> ([], log_event (Could_not_load (py ''FileNotFoundError'')) s)
           | Some content \<Rightarrow>
               (case read_csv env content of
                  Inl e \<Rightarrow> ([], log_event (Could_not_load e) s)
                | Inr df \<Rightarrow> (df, log_event (Loaded_existing_data latest_file (length df)) s))))"

definition output_file :: "('d, 'e) env \<Rightarrow> pystr" where
  "output_file env = CSV_PREFIX @ today_ymd env @ CSV_SUFFIX"

definition save_data :: "('d, 'e) env \<Rightarrow> world \<Rightarrow> row list \<Rightarrow> world" where
  "save_data env s all_data =
     log_event (Data_saved (output_file env) (length all_data))
       (s\<lparr>csv_files := AList.update (output_file env) (to_csv env all_data) (csv_files s),
          written := written s @ [(output_file env, all_data)]\<rparr>)"


section \<open>The crawl\<close>

definition page_url :: "('d, 'e) env \<Rightarrow> int \<Rightarrow> pystr" where
  "page_url env page_num =
     (if page_num = 1 then base_url env else base_url env @ py ''?page='' @ py_str page_num)"

text \<open>The loop of lines 221 to 230 over the page numbers still to visit.\<close>

fun collect_links :: "('d, 'e) env \<Rightarrow> int list \<Rightarrow> pystr list \<Rightarrow> world \<Rightarrow> pystr list \<times> world" where
  "collect_links env [] all_links s = (all_links, s)"
| "collect_links env (page_num # rest) all_links s =
     (case scrape_page env (log_event (Scraping_page page_num) s) (page_url env page_num) of
        (links, s1) \<Rightarrow>
          if links = [] then (all_links, log_event No_more_links s1)
          else collect_links env rest (all_links @ links) s1)"

abbreviation ORIGIN :: pystr where "ORIGIN \<equiv> py ''https://www.unegui.mn''"

text \<open>
  The loop of lines 235 to 246 over the links still to scrape: \<open>n\<close> is
  \<open>len(all_links)\<close>, \<open>i\<close> the number of the first of them. A dictionary is true when it
  is not empty.
\<close>

fun scrape_ads :: "('d, 'e) env \<Rightarrow> nat \<Rightarrow> int \<Rightarrow> pystr list \<Rightarrow> row list \<times> world \<Rightarrow> row list \<times> world" where
  "scrape_ads env n i [] (all_data, s) = (all_data, s)"
| "scrape_ads env n i (link # rest) (all_data, s) =
     (case scrape_ad env (log_event (Scraping_ad i n (ORIGIN @ link)) s) (ORIGIN @ link) of
        (ad_data, s1) \<Rightarrow>
          (let all_data1 = (case ad_data of
                              None \<Rightarrow> all_data
                            | Some ad \<Rightarrow> if ad = [] then all_data else all_data @ [ad])
           in scrape_ads env n (i + 1) rest
                (all_data1,
                 if i mod 20 = 0
                 then log_event (Progress_saved i n) (save_data env s1 all_data1)
                 else s1)))"

text \<open>Lines 232 to 253: the ads of the collected links, then the final save.\<close>

definition scrape_and_save :: "('d, 'e) env \<Rightarrow> pystr list \<Rightarrow> row list \<times> world \<Rightarrow> world" where
  "scrape_and_save env all_links = (\<lambda>(all_data, s).
     (case scrape_ads env (length all_links) 1 all_links
             (all_data, log_event (Found_links (length all_links)) s) of
        (all_data1, s1) \<Rightarrow>
          if all_data1 \<noteq> []
          then log_event (Scraping_completed (length all_data1)) (save_data env s1 all_data1)
          else log_event No_data_collected s1))"

definition run :: "('d, 'e) env \<Rightarrow> world \<Rightarrow> world" where
  "run env s =
     (case load_existing_data env s of
        (existing_data, s1) \<Rightarrow>
          (case collect_links env [1..max_pages env] []
                  (if existing_data \<noteq> []
                   then log_event (Loaded_existing_records (length existing_data)) s1
                   else s1) of
             (all_links, s2) \<Rightarrow> scrape_and_save env all_links (existing_data, s2)))"


section \<open>A small site for evaluation\<close>

text \<open>
  A concrete environment on which the definitions run: documents and elements are
  tables from queries to results. It stands in for the libraries where a value must be
  computed: the digest is the list of the bytes hashed, the float parser always raises,
  every CSV file is unreadable and the CSV writer concatenates the cells.
\<close>

datatype tag = Tag pystr "(pystr \<times> pystr) list" "(query \<times> tag) list" "(query \<times> tag list) list"

fun text_of :: "tag \<Rightarrow> pystr" where
  "text_of (Tag t a n c) = t"

fun attrs_of :: "tag \<Rightarrow> (pystr \<times> pystr) list" where
  "attrs_of (Tag t a n c) = a"

fun next_of :: "tag \<Rightarrow> (query \<times> tag) list" where
  "next_of (Tag t a n c) = n"

fun inside_of :: "tag \<Rightarrow> (query \<times> tag list) list" where
  "inside_of (Tag t a n c) = c"

definition lookup_all :: "('k \<times> 'v list) list \<Rightarrow> 'k \<Rightarrow> 'v list" where
  "lookup_all m q = (case map_of m q of None \<Rightarrow> [] | Some xs \<Rightarrow> xs)"

definition lookup_first :: "('k \<times> 'v list) list \<Rightarrow> 'k \<Rightarrow> 'v option" where
  "lookup_first m q = (case lookup_all m q of [] \<Rightarrow> None | x # _ \<Rightarrow> Some x)"

definition site :: "(nat \<Rightarrow> pystr \<Rightarrow> pystr + pystr) \<Rightarrow> (pystr \<times> (query \<times> tag list) list) list
    \<Rightarrow> ((query \<times> tag list) list, tag) env" where
  "site net pages =
     \<lparr> base_url = py ''https://www.unegui.mn/l/'', max_pages = 3,
       session_get = net,
       BeautifulSoup = (\<lambda>text. case map_of pages text of None \<Rightarrow> Inl (py ''parse error'') | Some d \<Rightarrow> Inr d),
       soup_find = lookup_first, soup_find_all = lookup_all,
       find_next = (\<lambda>e. map_of (next_of e)),
       tag_find = (\<lambda>e. lookup_first (inside_of e)), tag_find_all = (\<lambda>e. lookup_all (inside_of e)),
       tag_text = text_of, tag_attr = (\<lambda>e. map_of (attrs_of e)),
       md5_hexdigest = map unat, str_int_float = (\<lambda>p. None),
       today_dmy = py ''03/11/2026'', today_ymd = py ''20261103'',
       read_csv = (\<lambda>text. Inl (py ''unreadable'')), to_csv = concat \<circ> map (concat \<circ> map snd) \<rparr>"

definition offline :: "nat \<Rightarrow> pystr \<Rightarrow> pystr + pystr" where
  "offline k url = Inl (py ''timeout'')"

definition fresh :: world where
  "fresh = \<lparr> scraped_urls = {}, cache_file = None, csv_files = [], fetches = [], written = [], logged = [] \<rparr>"


text \<open>An ad page with a floor area and an address, and the record it gives.\<close>

definition ad_page :: "(query \<times> tag list) list" where
  "ad_page =
     [(Query (py ''span'') (With_text L_Talbai),
         [Tag L_Talbai [] [(Query (py ''a'') (With_class (py ''value-chars'')), Tag (py '' 52.5 '') [] [] [])] []]),
      (Query (py ''span'') (With_attr (py ''itemprop'') (py ''address'')),
         [Tag (py ''Chingeltei '' @ EM_DASH @ py ''  64th khoroolol, unit 5'') [] [] []])]"

definition online :: "nat \<Rightarrow> pystr \<Rightarrow> pystr + pystr" where
  "online k url =
     (if url = ORIGIN @ py ''/adv/1'' then Inr (py ''ad 1'')
      else if url = ORIGIN @ py ''/adv/2'' then Inr (py ''ad 2'')
      else if url = ORIGIN @ py ''/adv/3 '' then Inr (py ''ad 1'')
      else Inl (py ''404''))"

definition ad_1 :: row where
  "ad_1 =
     [(K_Shal, NA), (K_Tagt, NA), (K_Garaj, NA), (K_Tsonh, NA), (K_Haalga, NA), (K_Tsonhnytoo, NA),
      (K_Barilgynyavts, NA), (K_Ashiglaltandorsonon, NA), (K_Barilgyndavhar, NA),
      (K_Talbai, py ''52.5''), (K_Hedendavhart, NA), (K_Lizingeeravahbolomj, NA),
      (K_Duureg, py ''Chingeltei''), (K_Bairshil, py ''64th khoroolol, unit 5''), (K_Uzsen, NA),
      (K_Scraped_date, py ''03/11/2026''), (K_link, ORIGIN @ py ''/adv/1''), (K_Une, NA),
      (K_OrooniiToo, NA), (K_Zaryg_garchig, NA), (K_Zaryn_tailbar, NA), (K_Niitelsen, NA),
      (K_ad_id, ORIGIN @ py ''/adv/1'')]"


text \<open>Three listing pages, the second without ad links, and the states the crawl passes through.\<close>

definition listing :: "pystr list \<Rightarrow> (query \<times> tag list) list" where
  "listing hrefs =
     [(Query (py ''a'') (With_class (py ''mask'')), map (\<lambda>h. Tag [] [(py ''href'', h)] [] []) hrefs)]"

definition three_pages :: "nat \<Rightarrow> pystr \<Rightarrow> pystr + pystr" where
  "three_pages k url =
     (if url = py ''https://www.unegui.mn/l/'' then Inr (py ''page 1'')
      else if url = py ''https://www.unegui.mn/l/?page=2'' then Inr (py ''page 2'')
      else if url = py ''https://www.unegui.mn/l/?page=3'' then Inr (py ''page 3'')
      else Inl (py ''404''))"

definition three_docs :: "(pystr \<times> (query \<times> tag list) list) list" where
  "three_docs = [(py ''page 1'', listing [py ''/adv/1'']), (py ''page 2'', listing []),
                 (py ''page 3'', listing [py ''/adv/3''])]"

definition three_links :: "int \<Rightarrow> pystr list" where
  "three_links p = (if p = 1 then [py ''/adv/1''] else if p = 3 then [py ''/adv/3''] else [])"

definition after_page_1 :: world where
  "after_page_1 =
     fresh\<lparr>fetches := [py ''https://www.unegui.mn/l/''],
           logged := [Scraping_page 1, Found_links_on_page 1 (py ''https://www.unegui.mn/l/'')]\<rparr>"

definition after_page_2 :: world where
  "after_page_2 =
     fresh\<lparr>fetches := [py ''https://www.unegui.mn/l/'', py ''https://www.unegui.mn/l/?page=2''],
           logged := [Scraping_page 1, Found_links_on_page 1 (py ''https://www.unegui.mn/l/''),
                      Scraping_page 2, Found_links_on_page 0 (py ''https://www.unegui.mn/l/?page=2'')]\<rparr>"


text \<open>An ad page whose address has two em-dashes, and the record it gives.\<close>

definition two_dashes :: pystr where
  "two_dashes = py ''UB '' @ EM_DASH @ py '' Khan-Uul '' @ EM_DASH @ py '' Zaisan''"

definition ad_page_2 :: "(query \<times> tag list) list" where
  "ad_page_2 =
     [(Query (py ''span'') (With_attr (py ''itemprop'') (py ''address'')), [Tag two_dashes [] [] []])]"

definition ad_2 :: row where
  "ad_2 =
     [(K_Shal, NA), (K_Tagt, NA), (K_Garaj, NA), (K_Tsonh, NA), (K_Haalga, NA), (K_Tsonhnytoo, NA),
      (K_Barilgynyavts, NA), (K_Ashiglaltandorsonon, NA), (K_Barilgyndavhar, NA),
      (K_Talbai, NA), (K_Hedendavhart, NA), (K_Lizingeeravahbolomj, NA),
      (K_Duureg, py ''UB''), (K_Bairshil, py ''Khan-Uul''), (K_Uzsen, NA),
      (K_Scraped_date, py ''03/11/2026''), (K_link, ORIGIN @ py ''/adv/2''), (K_Une, NA),
      (K_OrooniiToo, NA), (K_Zaryg_garchig, NA), (K_Zaryn_tailbar, NA), (K_Niitelsen, NA),
      (K_ad_id, ORIGIN @ py ''/adv/2'')]"


text \<open>The same site a day later, and a directory whose only CSV file cannot be read.\<close>

definition next_day :: "((query \<times> tag list) list, tag) env" where
  "next_day = (site online [(py ''ad 1'', ad_page)])\<lparr>today_dmy := py ''04/11/2026'', today_ymd := py ''20261104''\<rparr>"

definition stale_disk :: world where
  "stale_disk = fresh\<lparr>csv_files := [(py ''unegui_sales_data_20261103.csv'', py ''not a table'')]\<rparr>"






section \<open>Properties\<close>

subsection \<open>What each operation changes\<close>

text \<open>
  A request appends its URL to the trace of requests and events to the log, and touches
  nothing else; \<open>scrape_ad\<close> adds the cache write when it returns a record.
\<close>

lemma make_request_effect:
  "\<exists>k evs. snd (make_request env s url rc) =
      s\<lparr>fetches := fetches s @ replicate k url, logged := logged s @ evs\<rparr>"
proof (induction env s url rc rule: make_request.induct)
  case (1 env s url rc)
  show ?case
  proof (cases "session_get env (length (fetches s)) url")
    case (Inr body)
    then have "snd (make_request env s url rc) = s\<lparr>fetches := fetches s @ replicate 1 url, logged := logged s @ []\<rparr>"
      by (simp add: make_request.simps [of env s url rc])
    then show ?thesis by blast
  next
    case (Inl e)
    show ?thesis
    proof (cases "rc < MAX_RETRIES")
      case True
      from 1 [OF Inl True] obtain k evs where
        "snd (make_request env (log_event (Request_failed_retrying url e rc) (s\<lparr>fetches := fetches s @ [url]\<rparr>)) url (rc + 1)) =
           (log_event (Request_failed_retrying url e rc) (s\<lparr>fetches := fetches s @ [url]\<rparr>))
             \<lparr>fetches := fetches (log_event (Request_failed_retrying url e rc) (s\<lparr>fetches := fetches s @ [url]\<rparr>)) @ replicate k url,
              logged := logged (log_event (Request_failed_retrying url e rc) (s\<lparr>fetches := fetches s @ [url]\<rparr>)) @ evs\<rparr>"
        by blast
      then have "snd (make_request env s url rc) =
           s\<lparr>fetches := fetches s @ replicate (Suc k) url, logged := logged s @ (Request_failed_retrying url e rc # evs)\<rparr>"
        using Inl True
        by (simp add: make_request.simps [of env s url rc] log_event_def replicate_app_Cons_same)
      then show ?thesis by blast
    next
      case False
      then have "snd (make_request env s url rc) =
           s\<lparr>fetches := fetches s @ replicate 1 url, logged := logged s @ [Failed_to_retrieve url e]\<rparr>"
        using Inl by (simp add: make_request.simps [of env s url rc] log_event_def)
      then show ?thesis by blast
    qed
  qed
qed

lemma make_request_fields:
  assumes "make_request env s url rc = (r, s1)"
  shows "scraped_urls s1 = scraped_urls s" "cache_file s1 = cache_file s"
    "csv_files s1 = csv_files s" "written s1 = written s"
    "\<exists>k. fetches s1 = fetches s @ replicate k url"
proof -
  from make_request_effect [of env s url rc] obtain k evs where
    "snd (make_request env s url rc) = s\<lparr>fetches := fetches s @ replicate k url, logged := logged s @ evs\<rparr>"
    by blast
  then have e: "s1 = s\<lparr>fetches := fetches s @ replicate k url, logged := logged s @ evs\<rparr>"
    by (simp add: assms)
  show "scraped_urls s1 = scraped_urls s" "cache_file s1 = cache_file s"
    "csv_files s1 = csv_files s" "written s1 = written s"
    "\<exists>k. fetches s1 = fetches s @ replicate k url"
    by (simp_all add: e)
qed

lemma handle_address_world:
  "\<exists>evs. snd (handle_address env soup url (ad, s)) = s\<lparr>logged := logged s @ evs\<rparr>"
proof -
  have "snd (handle_address env soup url (ad, s)) = s \<or>
        (\<exists>e. snd (handle_address env soup url (ad, s)) = s\<lparr>logged := logged s @ [e]\<rparr>)"
    by (auto simp: handle_address_def log_event_def split: option.splits)
  moreover have "s = s\<lparr>logged := logged s @ []\<rparr>" by simp
  ultimately show ?thesis by metis
qed

lemma scrape_ad_cached_eq:
  "u \<in> scraped_urls s \<Longrightarrow> scrape_ad env s u = (None, log_event (Skipping_already_scraped u) s)"
  by (simp add: scrape_ad_def)

lemma scrape_ad_world:
  "\<exists>k evs. snd (scrape_ad env s url) =
     (if fst (scrape_ad env s url) = None then (\<lambda>t. t) else (\<lambda>t. save_scraped_url t url))
       (s\<lparr>fetches := fetches s @ replicate k url, logged := logged s @ evs\<rparr>) \<and>
     (url \<in> scraped_urls s \<longrightarrow> k = 0) \<and> (fst (scrape_ad env s url) \<noteq> None \<longrightarrow> url \<notin> scraped_urls s)"
proof (cases "url \<in> scraped_urls s")
  case True
  then have r: "scrape_ad env s url = (None, s\<lparr>fetches := fetches s @ replicate 0 url,
      logged := logged s @ [Skipping_already_scraped url]\<rparr>)"
    by (simp add: scrape_ad_cached_eq log_event_def)
  show ?thesis
    by (rule exI [of _ 0], rule exI [of _ "[Skipping_already_scraped url]"]) (simp add: r)
next
  case False
  obtain r0 s0 where mr: "make_request env s url 0 = (r0, s0)"
    by (cases "make_request env s url 0")
  from make_request_effect [of env s url 0] obtain k evs where
    "snd (make_request env s url 0) = s\<lparr>fetches := fetches s @ replicate k url, logged := logged s @ evs\<rparr>"
    by blast
  then have s0: "s0 = s\<lparr>fetches := fetches s @ replicate k url, logged := logged s @ evs\<rparr>"
    by (simp add: mr)
  have log_s0: "\<And>e. log_event e s0 = s\<lparr>fetches := fetches s @ replicate k url, logged := logged s @ (evs @ [e])\<rparr>"
    by (simp add: s0 log_event_def)
  show ?thesis
  proof (cases r0)
    case None
    then have r: "scrape_ad env s url = (None, s0)"
      using False mr by (simp add: scrape_ad_def)
    show ?thesis
      by (rule exI [of _ k], rule exI [of _ evs]) (simp add: r s0 False)
  next
    case (Some body)
    show ?thesis
    proof (cases "BeautifulSoup env body")
      case (Inl e)
      then have r: "scrape_ad env s url = (None, log_event (Error_scraping_ad url e) s0)"
        using False mr Some by (simp add: scrape_ad_def)
      show ?thesis
        by (rule exI [of _ k], rule exI [of _ "evs @ [Error_scraping_ad url e]"])
           (simp add: r log_s0 False)
    next
      case (Inr soup)
      note soup = Inr
      show ?thesis
      proof (cases "new_ad_data env soup url")
        case (Inl e)
        then have r: "scrape_ad env s url = (None, log_event (Error_scraping_ad url e) s0)"
          using False mr Some soup by (simp add: scrape_ad_def)
        show ?thesis
          by (rule exI [of _ k], rule exI [of _ "evs @ [Error_scraping_ad url e]"])
             (simp add: r log_s0 False)
      next
        case (Inr ad)
        obtain ad1 s2 where ha: "handle_address env soup url (ad, s0) = (ad1, s2)"
          by (cases "handle_address env soup url (ad, s0)")
        from handle_address_world [of env soup url ad s0] obtain evs2 where
          "snd (handle_address env soup url (ad, s0)) = s0\<lparr>logged := logged s0 @ evs2\<rparr>" by blast
        then have "s2 = s0\<lparr>logged := logged s0 @ evs2\<rparr>"
          by (simp add: ha)
        then have s2: "s2 = s\<lparr>fetches := fetches s @ replicate k url, logged := logged s @ (evs @ evs2)\<rparr>"
          by (simp add: s0)
        have r: "snd (scrape_ad env s url) = save_scraped_url s2 url" "fst (scrape_ad env s url) \<noteq> None"
          using False mr Some soup Inr ha
          by (simp_all add: scrape_ad_def)
        show ?thesis
          by (rule exI [of _ k], rule exI [of _ "evs @ evs2"]) (simp add: r s2 False)
      qed
    qed
  qed
qed

lemma scrape_ad_fields:
  assumes "scrape_ad env s url = (r, s1)"
  shows "scraped_urls s \<subseteq> scraped_urls s1"
    "csv_files s1 = csv_files s" "written s1 = written s"
    "\<exists>k. fetches s1 = fetches s @ replicate k url \<and> (url \<in> scraped_urls s \<longrightarrow> k = 0)"
proof -
  from scrape_ad_world [of env s url] obtain k evs where
    "snd (scrape_ad env s url) = (if fst (scrape_ad env s url) = None then (\<lambda>t. t) else (\<lambda>t. save_scraped_url t url))
       (s\<lparr>fetches := fetches s @ replicate k url, logged := logged s @ evs\<rparr>)"
     and k: "url \<in> scraped_urls s \<longrightarrow> k = 0"
    by blast
  then have e: "s1 = (if r = None then (\<lambda>t. t) else (\<lambda>t. save_scraped_url t url))
       (s\<lparr>fetches := fetches s @ replicate k url, logged := logged s @ evs\<rparr>)"
    by (simp add: assms)
  show "scraped_urls s \<subseteq> scraped_urls s1"
    by (cases "r = None") (auto simp: e save_scraped_url_def)
  show "csv_files s1 = csv_files s"
    by (cases "r = None") (simp_all add: e save_scraped_url_def)
  show "written s1 = written s"
    by (cases "r = None") (simp_all add: e save_scraped_url_def)
  have "fetches s1 = fetches s @ replicate k url"
    by (cases "r = None") (simp_all add: e save_scraped_url_def)
  with k show "\<exists>k. fetches s1 = fetches s @ replicate k url \<and> (url \<in> scraped_urls s \<longrightarrow> k = 0)"
    by blast
qed

lemma scrape_ads_fetches:
  "\<exists>new. fetches (snd (scrape_ads env n i links (d, s))) = fetches s @ new \<and>
     set new \<inter> scraped_urls s = {}"
proof (induction links arbitrary: i d s)
  case Nil
  then show ?case by simp
next
  case (Cons link rest)
  let ?s0 = "log_event (Scraping_ad i n (ORIGIN @ link)) s"
  obtain r s1 where sa: "scrape_ad env ?s0 (ORIGIN @ link) = (r, s1)"
    by (cases "scrape_ad env ?s0 (ORIGIN @ link)")
  from scrape_ad_fields(4) [OF sa] obtain k where
    k: "fetches s1 = fetches s @ replicate k (ORIGIN @ link)" "ORIGIN @ link \<in> scraped_urls s \<longrightarrow> k = 0"
    by (auto simp: log_event_def)
  from scrape_ad_fields(1) [OF sa] have sub: "scraped_urls s \<subseteq> scraped_urls s1"
    by (simp add: log_event_def)
  define d1 where "d1 = (case r of None \<Rightarrow> d | Some ad \<Rightarrow> if ad = [] then d else d @ [ad])"
  define s2 where "s2 = (if i mod 20 = 0 then log_event (Progress_saved i n) (save_data env s1 d1) else s1)"
  have s2: "fetches s2 = fetches s1" "scraped_urls s2 = scraped_urls s1"
    by (auto simp: s2_def log_event_def save_data_def)
  from Cons.IH [of "i + 1" d1 s2] obtain new where
    new: "fetches (snd (scrape_ads env n (i + 1) rest (d1, s2))) = fetches s2 @ new"
      "set new \<inter> scraped_urls s2 = {}"
    by blast
  have step: "scrape_ads env n i (link # rest) (d, s) = scrape_ads env n (i + 1) rest (d1, s2)"
    using sa by (simp add: d1_def s2_def Let_def)
  have "fetches (snd (scrape_ads env n i (link # rest) (d, s))) =
      fetches s @ (replicate k (ORIGIN @ link) @ new)"
    using new(1) s2(1) k(1) by (simp only: step append_assoc)
  moreover have "set (replicate k (ORIGIN @ link) @ new) \<inter> scraped_urls s = {}"
    using new(2) s2(2) sub k(2) by (cases "k = 0") auto
  ultimately show ?case by blast
qed


lemma make_request_exhausted:
  assumes "\<forall>k. session_get env k url = Inl (cause k)"
  shows "make_request env s url 0 =
           (None, s\<lparr>fetches := fetches s @ [url, url, url, url],
                    logged := logged s @
                      [Request_failed_retrying url (cause (length (fetches s))) 0,
                       Request_failed_retrying url (cause (length (fetches s) + 1)) 1,
                       Request_failed_retrying url (cause (length (fetches s) + 2)) 2,
                       Failed_to_retrieve url (cause (length (fetches s) + 3))]\<rparr>)"
  using assms
  by (simp add: make_request.simps [of env _ url] MAX_RETRIES_def log_event_def
      numeral_2_eq_2 numeral_3_eq_3)

lemma scrape_page_fetches:
  "\<exists>k. fetches (snd (scrape_page env s url)) = fetches s @ replicate k url"
proof -
  obtain r s0 where mr: "make_request env s url 0 = (r, s0)"
    by (cases "make_request env s url 0")
  from make_request_fields(5) [OF mr] obtain k where "fetches s0 = fetches s @ replicate k url"
    by blast
  moreover have "fetches (snd (scrape_page env s url)) = fetches s0"
    by (simp add: scrape_page_def mr log_event_def Let_def split: option.splits sum.splits)
  ultimately show ?thesis by auto
qed

lemma collect_links_fetches:
  "\<exists>new. fetches (snd (collect_links env pages all_links s)) = fetches s @ new \<and>
     set new \<subseteq> page_url env ` set pages"
proof (induction pages arbitrary: all_links s)
  case Nil
  then show ?case by simp
next
  case (Cons p rest)
  let ?s0 = "log_event (Scraping_page p) s"
  obtain links s1 where sp: "scrape_page env ?s0 (page_url env p) = (links, s1)"
    by (cases "scrape_page env ?s0 (page_url env p)")
  from scrape_page_fetches [of env ?s0 "page_url env p"] sp obtain k where
    k: "fetches s1 = fetches s @ replicate k (page_url env p)"
    by (auto simp: log_event_def)
  show ?case
  proof (cases "links = []")
    case True
    then have "fetches (snd (collect_links env (p # rest) all_links s)) =
        fetches s @ replicate k (page_url env p)"
      using sp k by (simp add: log_event_def)
    moreover have "set (replicate k (page_url env p)) \<subseteq> page_url env ` set (p # rest)"
      by auto
    ultimately show ?thesis by blast
  next
    case False
    from Cons.IH [of "all_links @ links" s1] obtain new where
      new: "fetches (snd (collect_links env rest (all_links @ links) s1)) = fetches s1 @ new"
        "set new \<subseteq> page_url env ` set rest"
      by blast
    have "fetches (snd (collect_links env (p # rest) all_links s)) =
        fetches s @ (replicate k (page_url env p) @ new)"
      using sp False new(1) k by simp
    moreover have "set (replicate k (page_url env p) @ new) \<subseteq> page_url env ` set (p # rest)"
      using new(2) by auto
    ultimately show ?thesis by blast
  qed
qed


lemma collect_links_stable:
  assumes "\<forall>s. \<forall>p \<in> set pages. fst (scrape_page env s (page_url env p)) = L p"
  shows "fst (collect_links env pages all_links s) =
           all_links @ concat (map L (takeWhile (\<lambda>p. L p \<noteq> []) pages))"
  using assms
proof (induction pages arbitrary: all_links s)
  case Nil
  then show ?case by simp
next
  case (Cons p rest)
  let ?s0 = "log_event (Scraping_page p) s"
  obtain links s1 where sp: "scrape_page env ?s0 (page_url env p) = (links, s1)"
    by (cases "scrape_page env ?s0 (page_url env p)")
  from Cons.prems have "fst (scrape_page env ?s0 (page_url env p)) = L p"
    by simp
  with sp have l: "links = L p" by simp
  from Cons.prems have rest: "\<forall>s. \<forall>q \<in> set rest. fst (scrape_page env s (page_url env q)) = L q"
    by simp
  show ?case
  proof (cases "L p = []")
    case True
    with sp l show ?thesis by simp
  next
    case False
    with sp l Cons.IH [OF rest, of "all_links @ L p" s1] show ?thesis by simp
  qed
qed


subsection \<open>Retries\<close>

text \<open>
  C1. When every request for a URL fails, \<open>make_request\<close> issues exactly four requests
  for it (the first attempt and \<open>MAX_RETRIES = 3\<close> retries), returns \<open>None\<close> rather than
  raising, and logs the final failure with the URL and the cause of the last attempt,
  after one warning per retry.
\<close>

theorem make_request_always_failing:
  assumes "\<forall>k. session_get env k url = Inl (cause k)"
  shows "make_request env s url 0 =
           (None, s\<lparr>fetches := fetches s @ [url, url, url, url],
                    logged := logged s @
                      [Request_failed_retrying url (cause (length (fetches s))) 0,
                       Request_failed_retrying url (cause (length (fetches s) + 1)) 1,
                       Request_failed_retrying url (cause (length (fetches s) + 2)) 2,
                       Failed_to_retrieve url (cause (length (fetches s) + 3))]\<rparr>)"
  using assms by (rule make_request_exhausted)

theorem make_request_always_failing_witness:
  "(\<forall>k. session_get (site offline []) k (py ''u'') = Inl (py ''timeout'')) \<and>
   make_request (site offline []) fresh (py ''u'') 0 =
     (None, fresh\<lparr>fetches := [py ''u'', py ''u'', py ''u'', py ''u''],
                  logged := [Request_failed_retrying (py ''u'') (py ''timeout'') 0,
                             Request_failed_retrying (py ''u'') (py ''timeout'') 1,
                             Request_failed_retrying (py ''u'') (py ''timeout'') 2,
                             Failed_to_retrieve (py ''u'') (py ''timeout'')]\<rparr>)"
proof -
  have h: "\<forall>k. session_get (site offline []) k (py ''u'') = Inl (py ''timeout'')"
    by (simp add: site_def offline_def)
  show ?thesis
    using h make_request_always_failing [OF h, of fresh]
    by (simp add: fresh_def)
qed


subsection \<open>The dedup cache is checked before the request\<close>

text \<open>
  C2. For a URL that is in \<open>scraped_urls\<close>, \<open>scrape_ad\<close> returns \<open>None\<close> and only logs
  that it skips the URL: no request is issued and the set, the cache file and the CSV
  files stay as they are. In the loop over the links the batch is left unchanged by such
  a link, and whatever links the loop runs over, none of the requests it issues is for a
  URL that was in the cache when the loop started.
\<close>

theorem cached_url_is_skipped:
  assumes "u \<in> scraped_urls s"
  shows "scrape_ad env s u = (None, log_event (Skipping_already_scraped u) s) \<and>
         fetches (snd (scrape_ad env s u)) = fetches s \<and>
         scraped_urls (snd (scrape_ad env s u)) = scraped_urls s \<and>
         cache_file (snd (scrape_ad env s u)) = cache_file s \<and>
         csv_files (snd (scrape_ad env s u)) = csv_files s \<and>
         (ORIGIN @ link = u \<longrightarrow> fst (scrape_ads env n i [link] (all_data, s)) = all_data) \<and>
         (\<exists>new. fetches (snd (scrape_ads env n i links (all_data, s))) = fetches s @ new \<and>
                u \<notin> set new)"
proof -
  have eq: "scrape_ad env s u = (None, log_event (Skipping_already_scraped u) s)"
    using assms by (rule scrape_ad_cached_eq)
  have one: "ORIGIN @ link = u \<longrightarrow> fst (scrape_ads env n i [link] (all_data, s)) = all_data"
    using assms by (auto simp: scrape_ad_cached_eq log_event_def)
  from scrape_ads_fetches [of env n i links all_data s] obtain new where
    "fetches (snd (scrape_ads env n i links (all_data, s))) = fetches s @ new"
    "set new \<inter> scraped_urls s = {}"
    by blast
  with assms have loop: "\<exists>new. fetches (snd (scrape_ads env n i links (all_data, s))) = fetches s @ new \<and>
      u \<notin> set new"
    by blast
  show ?thesis
    using one loop by (simp add: eq log_event_def)
qed

theorem cached_url_is_skipped_witness:
  "ORIGIN @ py ''/adv/1'' \<in> scraped_urls (fresh\<lparr>scraped_urls := {ORIGIN @ py ''/adv/1''}\<rparr>) \<and>
   scrape_ad (site offline []) (fresh\<lparr>scraped_urls := {ORIGIN @ py ''/adv/1''}\<rparr>) (ORIGIN @ py ''/adv/1'') =
     (None, fresh\<lparr>scraped_urls := {ORIGIN @ py ''/adv/1''},
                  logged := [Skipping_already_scraped (ORIGIN @ py ''/adv/1'')]\<rparr>)"
proof -
  have h: "ORIGIN @ py ''/adv/1'' \<in> scraped_urls (fresh\<lparr>scraped_urls := {ORIGIN @ py ''/adv/1''}\<rparr>)"
    by simp
  show ?thesis
    using h cached_url_is_skipped [OF h, of "site offline []"]
    by (simp add: fresh_def log_event_def)
qed

subsection \<open>Missing elements\<close>

lemma get_text_value_absent:
  "soup_find env soup (Query (py ''span'') (With_text key)) = None \<Longrightarrow> get_text_value env soup key = NA"
  by (simp add: get_text_value_def)

lemma get_value_chars_absent:
  "soup_find env soup (Query (py ''span'') (With_text key)) = None \<Longrightarrow> get_value_chars env soup key = NA"
  by (simp add: get_value_chars_def)

lemma update_keeps_keys: "k \<in> set (map fst al) \<Longrightarrow> map fst (AList.update k v al) = map fst al"
  by (simp add: update_keys)

lemma new_ad_data_keys: "new_ad_data env soup url = Inr ad \<Longrightarrow> map fst ad = FIELDS"
  by (auto simp: new_ad_data_def FIELDS_def split: sum.splits)

lemma handle_address_keys:
  "map fst ad = FIELDS \<Longrightarrow> map fst (fst (handle_address env soup url (ad, s))) = FIELDS"
  by (simp add: handle_address_def update_keys FIELDS_def split: option.splits)

lemma extract_views_keys: "map fst ad = FIELDS \<Longrightarrow> map fst (extract_views env soup ad) = FIELDS"
  by (simp add: extract_views_def update_keys FIELDS_def split: option.splits)

lemma extract_price_keys: "map fst ad = FIELDS \<Longrightarrow> map fst (extract_price env soup ad) = FIELDS"
  by (simp add: extract_price_def update_keys FIELDS_def Let_def split: option.splits)

lemma extract_rooms_keys: "map fst ad = FIELDS \<Longrightarrow> map fst (extract_rooms env soup ad) = FIELDS"
  by (simp add: extract_rooms_def update_keys FIELDS_def split: option.splits list.splits)

lemma extract_title_keys: "map fst ad = FIELDS \<Longrightarrow> map fst (extract_title env soup ad) = FIELDS"
  by (simp add: extract_title_def update_keys FIELDS_def split: option.splits)

lemma extract_description_keys: "map fst ad = FIELDS \<Longrightarrow> map fst (extract_description env soup ad) = FIELDS"
  by (simp add: extract_description_def update_keys FIELDS_def split: option.splits)

lemma extract_posted_keys: "map fst ad = FIELDS \<Longrightarrow> map fst (extract_posted env soup ad) = FIELDS"
  by (simp add: extract_posted_def update_keys FIELDS_def split: option.splits)

text \<open>What a successful \<open>scrape_ad\<close> went through.\<close>

lemma scrape_ad_SomeD:
  assumes "scrape_ad env s url = (Some ad, s1)"
  shows "\<exists>body s0 soup ad0 ad1 s2.
      url \<notin> scraped_urls s \<and>
      make_request env s url 0 = (Some body, s0) \<and> BeautifulSoup env body = Inr soup \<and>
      new_ad_data env soup url = Inr ad0 \<and> handle_address env soup url (ad0, s0) = (ad1, s2) \<and>
      ad = extract_posted env soup (extract_description env soup (extract_title env soup
             (extract_rooms env soup (extract_price env soup (extract_views env soup ad1))))) \<and>
      s1 = save_scraped_url s2 url"
  using assms
  by (auto simp: scrape_ad_def split: if_splits prod.splits option.splits sum.splits)

lemma scrape_ad_keys:
  assumes "scrape_ad env s url = (Some ad, s1)"
  shows "map fst ad = FIELDS"
proof -
  from scrape_ad_SomeD [OF assms] obtain body s0 soup ad0 ad1 s2 where
    n: "new_ad_data env soup url = Inr ad0" and
    h: "handle_address env soup url (ad0, s0) = (ad1, s2)" and
    ad: "ad = extract_posted env soup (extract_description env soup (extract_title env soup
             (extract_rooms env soup (extract_price env soup (extract_views env soup ad1)))))"
    by blast
  have "map fst ad1 = FIELDS"
    using handle_address_keys [OF new_ad_data_keys [OF n], of env soup url s0] h by simp
  then show ?thesis
    unfolding ad
    by (intro extract_posted_keys extract_description_keys extract_title_keys extract_rooms_keys
        extract_price_keys extract_views_keys)
qed


lemma handle_address_absent:
  "soup_find env soup (Query (py ''span'') (With_attr (py ''itemprop'') (py ''address''))) = None \<Longrightarrow>
   handle_address env soup url (ad, s) = (ad, s)"
  by (simp add: handle_address_def)

lemma handle_address_other:
  "k \<noteq> K_Duureg \<Longrightarrow> k \<noteq> K_Bairshil \<Longrightarrow>
   map_of (fst (handle_address env soup url (ad, s))) k = map_of ad k"
  by (simp add: handle_address_def update_conv' split: option.splits)

lemma extract_views_absent:
  "soup_find env soup (Query (py ''span'') (With_class (py ''counter-views''))) = None \<Longrightarrow>
   extract_views env soup ad = ad"
  by (simp add: extract_views_def)

lemma extract_views_other: "k \<noteq> K_Uzsen \<Longrightarrow> map_of (extract_views env soup ad) k = map_of ad k"
  by (simp add: extract_views_def update_conv' split: option.splits)

lemma extract_price_absent:
  "soup_find env soup (Query (py ''meta'') (With_attr (py ''itemprop'') (py ''price''))) = None \<Longrightarrow>
   extract_price env soup ad = ad"
  by (simp add: extract_price_def)

lemma extract_price_other: "k \<noteq> K_Une \<Longrightarrow> map_of (extract_price env soup ad) k = map_of ad k"
  by (simp add: extract_price_def update_conv' Let_def split: option.splits)

lemma extract_rooms_absent:
  "soup_find env soup (Query (py ''div'') (With_class (py ''wrap js-single-item__location''))) = None \<Longrightarrow>
   extract_rooms env soup ad = ad"
  by (simp add: extract_rooms_def)

lemma extract_rooms_other: "k \<noteq> K_OrooniiToo \<Longrightarrow> map_of (extract_rooms env soup ad) k = map_of ad k"
  by (simp add: extract_rooms_def update_conv' split: option.splits list.splits)

lemma extract_title_absent:
  "soup_find env soup (Query (py ''h1'') (With_class (py ''title-announcement''))) = None \<Longrightarrow>
   extract_title env soup ad = ad"
  by (simp add: extract_title_def)

lemma extract_title_other: "k \<noteq> K_Zaryg_garchig \<Longrightarrow> map_of (extract_title env soup ad) k = map_of ad k"
  by (simp add: extract_title_def update_conv' split: option.splits)

lemma extract_description_absent:
  "soup_find env soup (Query (py ''div'') (With_class (py ''announcement-description''))) = None \<Longrightarrow>
   extract_description env soup ad = ad"
  by (simp add: extract_description_def)

lemma extract_description_other:
  "k \<noteq> K_Zaryn_tailbar \<Longrightarrow> map_of (extract_description env soup ad) k = map_of ad k"
  by (simp add: extract_description_def update_conv' split: option.splits)

lemma extract_posted_absent:
  "soup_find env soup (Query (py ''span'') (With_class (py ''date-meta''))) = None \<Longrightarrow>
   extract_posted env soup ad = ad"
  by (simp add: extract_posted_def)

lemma extract_posted_other: "k \<noteq> K_Niitelsen \<Longrightarrow> map_of (extract_posted env soup ad) k = map_of ad k"
  by (simp add: extract_posted_def update_conv' split: option.splits)

lemmas extract_absent = extract_views_absent extract_price_absent extract_rooms_absent
  extract_title_absent extract_description_absent extract_posted_absent

lemmas extract_other = extract_views_other extract_price_other extract_rooms_other
  extract_title_other extract_description_other extract_posted_other

lemma scrape_ad_absent_all:
  assumes "scrape_ad env s url = (Some ad, s1)"
    and "make_request env s url 0 = (Some body, s0)" and "BeautifulSoup env body = Inr soup"
  shows "list_all (\<lambda>(column, q). soup_find env soup q = None \<longrightarrow> map_of ad column = Some NA) field_sources"
proof -
  from scrape_ad_SomeD [OF assms(1)] assms(2,3) obtain ad0 ad1 s2 where
    n: "new_ad_data env soup url = Inr ad0" and
    h: "handle_address env soup url (ad0, s0) = (ad1, s2)" and
    ad: "ad = extract_posted env soup (extract_description env soup (extract_title env soup
             (extract_rooms env soup (extract_price env soup (extract_views env soup ad1)))))"
    by auto
  from n obtain i where ad0: "ad0 =
         [(K_Shal, get_text_value env soup L_Shal),
          (K_Tagt, get_text_value env soup L_Tagt),
          (K_Garaj, get_text_value env soup L_Garaj),
          (K_Tsonh, get_text_value env soup L_Tsonh),
          (K_Haalga, get_text_value env soup L_Haalga),
          (K_Tsonhnytoo, get_value_chars env soup L_Tsonhny_too),
          (K_Barilgynyavts, get_text_value env soup L_Barilgynyavts),
          (K_Ashiglaltandorsonon, get_text_value env soup L_Ashiglaltandorsonon),
          (K_Barilgyndavhar, get_value_chars env soup L_Barilgyn_davhar),
          (K_Talbai, get_value_chars env soup L_Talbai),
          (K_Hedendavhart, get_value_chars env soup L_Heden_davhart),
          (K_Lizingeeravahbolomj, get_text_value env soup L_Lizingeeravahbolomj),
          (K_Duureg, NA), (K_Bairshil, NA), (K_Uzsen, NA),
          (K_Scraped_date, today_dmy env), (K_link, url), (K_Une, NA), (K_OrooniiToo, NA),
          (K_Zaryg_garchig, NA), (K_Zaryn_tailbar, NA), (K_Niitelsen, NA), (K_ad_id, i)]"
    by (auto simp: new_ad_data_def split: sum.splits)
  have ad1: "ad1 = fst (handle_address env soup url (ad0, s0))"
    by (simp add: h)
  show ?thesis
    unfolding field_sources_def list.pred_inject prod.case
    by (intro conjI impI TrueI;
        simp add: ad ad1 extract_other extract_absent handle_address_other handle_address_absent
          get_text_value_absent get_value_chars_absent ad0)
qed


text \<open>
  C3. When the label element of a field is absent from the document, \<open>get_text_value\<close>
  and \<open>get_value_chars\<close> return \<open>N/A\<close>; they are total, so nothing is raised. Every
  record \<open>scrape_ad\<close> returns has exactly the keys \<open>FIELDS\<close>, in that order, and for each
  extracted field whose element is absent from the parsed document the record holds
  \<open>N/A\<close> under the field's key.
\<close>

theorem absent_element_yields_sentinel:
  "(soup_find env soup (Query (py ''span'') (With_text key)) = None \<longrightarrow>
      get_text_value env soup key = NA \<and> get_value_chars env soup key = NA) \<and>
   (scrape_ad env s url = (Some ad, s1) \<longrightarrow>
      map fst ad = FIELDS \<and>
      (\<forall>body s0 doc. make_request env s url 0 = (Some body, s0) \<and> BeautifulSoup env body = Inr doc \<longrightarrow>
         (\<forall>(column, q) \<in> set field_sources.
            soup_find env doc q = None \<longrightarrow> map_of ad column = Some NA)))"
proof (intro conjI impI allI)
  assume "soup_find env soup (Query (py ''span'') (With_text key)) = None"
  then show "get_text_value env soup key = NA" by (rule get_text_value_absent)
next
  assume "soup_find env soup (Query (py ''span'') (With_text key)) = None"
  then show "get_value_chars env soup key = NA" by (rule get_value_chars_absent)
next
  assume "scrape_ad env s url = (Some ad, s1)"
  then show "map fst ad = FIELDS" by (rule scrape_ad_keys)
next
  fix body s0 doc
  assume a: "scrape_ad env s url = (Some ad, s1)"
    and b: "make_request env s url 0 = (Some body, s0) \<and> BeautifulSoup env body = Inr doc"
  from scrape_ad_absent_all [OF a conjunct1 [OF b] conjunct2 [OF b]]
  show "\<forall>(column, q) \<in> set field_sources.
            soup_find env doc q = None \<longrightarrow> map_of ad column = Some NA"
    by (simp only: list_all_iff)
qed


lemma scrape_ad_1:
  "scrape_ad (site online [(py ''ad 1'', ad_page)]) fresh (ORIGIN @ py ''/adv/1'') =
     (Some ad_1,
      fresh\<lparr>scraped_urls := {ORIGIN @ py ''/adv/1''},
            cache_file := Some (ORIGIN @ py ''/adv/1'' @ [10]),
            fetches := [ORIGIN @ py ''/adv/1'']\<rparr>)"
  by (simp add: scrape_ad_def make_request.simps site_def online_def fresh_def new_ad_data_def
      generate_ad_id_def utf8_char_def get_text_value_def get_value_chars_def lookup_first_def
      lookup_all_def handle_address_def startswith_def py_split_def py_index_def py_strip_def
      py_isspace_def extract_views_def extract_price_def extract_rooms_def extract_title_def
      extract_description_def extract_posted_def save_scraped_url_def py_def NA_def ad_1_def
      ad_page_def)

theorem absent_element_yields_sentinel_witness:
  "soup_find (site online [(py ''ad 1'', ad_page)]) ad_page (Query (py ''span'') (With_text L_Shal)) = None \<and>
   get_text_value (site online [(py ''ad 1'', ad_page)]) ad_page L_Shal = NA \<and>
   scrape_ad (site online [(py ''ad 1'', ad_page)]) fresh (ORIGIN @ py ''/adv/1'') =
     (Some ad_1,
      fresh\<lparr>scraped_urls := {ORIGIN @ py ''/adv/1''},
            cache_file := Some (ORIGIN @ py ''/adv/1'' @ [10]),
            fetches := [ORIGIN @ py ''/adv/1'']\<rparr>) \<and>
   map fst ad_1 = FIELDS \<and> map_of ad_1 K_Shal = Some NA"
proof -
  have h: "soup_find (site online [(py ''ad 1'', ad_page)]) ad_page (Query (py ''span'') (With_text L_Shal)) = None"
    by (simp add: site_def lookup_first_def lookup_all_def ad_page_def py_def)
  show ?thesis
    using h scrape_ad_1
      absent_element_yields_sentinel [of "site online [(py ''ad 1'', ad_page)]" ad_page L_Shal fresh
        "ORIGIN @ py ''/adv/1''" ad_1]
    by (simp add: ad_1_def)
qed

subsection \<open>Pagination\<close>

lemmas site_eval = scrape_page_def make_request.simps site_def fresh_def lookup_first_def
  lookup_all_def log_event_def page_url_def py_str_def digits.simps py_def List.map_filter_def


text \<open>
  C4. The loop over the listing pages ends when no page number is left. When the page it
  scrapes yields no link it returns at once with the links collected so far: the final
  state is the state after that page plus one log line, so no later page is requested.
  When the page yields links it goes on with the remaining page numbers. Started on the
  pages 1 to \<open>max_pages\<close>, it requests nothing but the URLs of these pages. On a site
  where page \<open>p\<close> always yields the links \<open>L p\<close>, the links collected are those of
  the pages before the first page without links.
\<close>

theorem pagination_stops_at_empty_page:
  "collect_links env [] all_links s = (all_links, s) \<and>
   (scrape_page env (log_event (Scraping_page p) s) (page_url env p) = ([], s1) \<longrightarrow>
      collect_links env (p # rest) all_links s = (all_links, log_event No_more_links s1)) \<and>
   (scrape_page env (log_event (Scraping_page p) s) (page_url env p) = (links, s1) \<and> links \<noteq> [] \<longrightarrow>
      collect_links env (p # rest) all_links s = collect_links env rest (all_links @ links) s1) \<and>
   (\<exists>new. fetches (snd (collect_links env [1..max_pages env] all_links s)) = fetches s @ new \<and>
      set new \<subseteq> page_url env ` {1..max_pages env}) \<and>
   ((\<forall>s. \<forall>p \<in> set pages. fst (scrape_page env s (page_url env p)) = L p) \<longrightarrow>
      fst (collect_links env pages all_links s) =
        all_links @ concat (map L (takeWhile (\<lambda>p. L p \<noteq> []) pages)))"
proof -
  have stop: "scrape_page env (log_event (Scraping_page p) s) (page_url env p) = ([], s1) \<longrightarrow>
      collect_links env (p # rest) all_links s = (all_links, log_event No_more_links s1)"
    by simp
  have continue: "scrape_page env (log_event (Scraping_page p) s) (page_url env p) = (links, s1) \<and> links \<noteq> [] \<longrightarrow>
      collect_links env (p # rest) all_links s = collect_links env rest (all_links @ links) s1"
    by simp
  have bound: "\<exists>new. fetches (snd (collect_links env [1..max_pages env] all_links s)) = fetches s @ new \<and>
      set new \<subseteq> page_url env ` {1..max_pages env}"
    using collect_links_fetches [of env "[1..max_pages env]" all_links s] by simp
  have stable: "(\<forall>s. \<forall>p \<in> set pages. fst (scrape_page env s (page_url env p)) = L p) \<longrightarrow>
      fst (collect_links env pages all_links s) =
        all_links @ concat (map L (takeWhile (\<lambda>p. L p \<noteq> []) pages))"
    by (rule impI) (rule collect_links_stable)
  have ended: "collect_links env [] all_links s = (all_links, s)"
    by simp
  show ?thesis
    by (intro conjI ended stop continue bound stable)
qed

lemma three_pages_stable:
  "\<forall>s. \<forall>p \<in> set [1, 2, 3]. fst (scrape_page (site three_pages three_docs) s
      (page_url (site three_pages three_docs) p)) = three_links p"
  by (simp add: scrape_page_def make_request.simps site_def lookup_first_def
      lookup_all_def log_event_def page_url_def py_str_def digits.simps py_def List.map_filter_def
      three_pages_def three_docs_def listing_def three_links_def)


theorem pagination_stops_at_empty_page_witness:
  "scrape_page (site three_pages three_docs) (log_event (Scraping_page 1) fresh)
     (page_url (site three_pages three_docs) 1) = ([py ''/adv/1''], after_page_1) \<and>
   [py ''/adv/1''] \<noteq> [] \<and>
   scrape_page (site three_pages three_docs) (log_event (Scraping_page 2) after_page_1)
     (page_url (site three_pages three_docs) 2) = ([], after_page_2) \<and>
   collect_links (site three_pages three_docs) [1, 2, 3] [] fresh =
     ([py ''/adv/1''], log_event No_more_links after_page_2) \<and>
   (\<forall>s. fst (scrape_page (site three_pages three_docs) s (page_url (site three_pages three_docs) 3)) =
          [py ''/adv/3'']) \<and>
   fst (collect_links (site three_pages three_docs) [1, 2, 3] [] fresh) =
     concat (map three_links (takeWhile (\<lambda>p. three_links p \<noteq> []) [1, 2, 3]))"
proof -
  let ?E = "site three_pages three_docs"
  have p1: "scrape_page ?E (log_event (Scraping_page 1) fresh) (page_url ?E 1) =
      ([py ''/adv/1''], after_page_1)"
    by (simp add: site_eval three_pages_def three_docs_def listing_def after_page_1_def)
  have p2: "scrape_page ?E (log_event (Scraping_page 2) after_page_1) (page_url ?E 2) =
      ([], after_page_2)"
    by (simp add: site_eval three_pages_def three_docs_def listing_def after_page_1_def
        after_page_2_def)
  have p3: "\<forall>s. fst (scrape_page ?E s (page_url ?E 3)) = [py ''/adv/3'']"
    using three_pages_stable by (simp add: three_links_def)
  note step1 = pagination_stops_at_empty_page [where env = ?E and all_links = "[]" and s = fresh
      and p = 1 and ?s1.0 = after_page_1 and rest = "[2, 3]" and links = "[py ''/adv/1'']"
      and pages = "[1, 2, 3]" and L = three_links]
  note step2 = pagination_stops_at_empty_page [where env = ?E and all_links = "[py ''/adv/1'']"
      and s = after_page_1 and p = 2 and ?s1.0 = after_page_2 and rest = "[3]"]
  have a: "collect_links ?E [1, 2, 3] [] fresh = collect_links ?E [2, 3] [py ''/adv/1''] after_page_1"
    using step1 p1 by (simp del: collect_links.simps)
  have b: "collect_links ?E [2, 3] [py ''/adv/1''] after_page_1 =
      ([py ''/adv/1''], log_event No_more_links after_page_2)"
    using step2 p2 by (simp del: collect_links.simps)
  have c: "fst (collect_links ?E [1, 2, 3] [] fresh) =
     concat (map three_links (takeWhile (\<lambda>p. three_links p \<noteq> []) [1, 2, 3]))"
    using step1 three_pages_stable by (simp del: collect_links.simps)
  have n: "[py ''/adv/1''] \<noteq> []"
    by simp
  show ?thesis
    by (intro conjI p1 n p2 trans [OF a b] p3 c)
qed

text \<open>
  C10. When every request for a listing page fails, \<open>scrape_page\<close> makes the four
  attempts and returns the empty list, and the loop takes the same branch as for a page
  without links: it logs that no more links were found and returns the links collected
  so far, without a request for any later page.
\<close>

theorem failed_listing_page_ends_pagination:
  assumes "\<forall>k. session_get env k (page_url env p) = Inl (cause k)"
  shows "scrape_page env (log_event (Scraping_page p) s) (page_url env p) =
           ([], s\<lparr>fetches := fetches s @ replicate 4 (page_url env p),
                  logged := logged s @
                    [Scraping_page p,
                     Request_failed_retrying (page_url env p) (cause (length (fetches s))) 0,
                     Request_failed_retrying (page_url env p) (cause (length (fetches s) + 1)) 1,
                     Request_failed_retrying (page_url env p) (cause (length (fetches s) + 2)) 2,
                     Failed_to_retrieve (page_url env p) (cause (length (fetches s) + 3))]\<rparr>) \<and>
         collect_links env (p # rest) all_links s =
           (all_links,
            s\<lparr>fetches := fetches s @ replicate 4 (page_url env p),
              logged := logged s @
                [Scraping_page p,
                 Request_failed_retrying (page_url env p) (cause (length (fetches s))) 0,
                 Request_failed_retrying (page_url env p) (cause (length (fetches s) + 1)) 1,
                 Request_failed_retrying (page_url env p) (cause (length (fetches s) + 2)) 2,
                 Failed_to_retrieve (page_url env p) (cause (length (fetches s) + 3)),
                 No_more_links]\<rparr>)"
proof -
  have sp: "scrape_page env (log_event (Scraping_page p) s) (page_url env p) =
           ([], s\<lparr>fetches := fetches s @ replicate 4 (page_url env p),
                  logged := logged s @
                    [Scraping_page p,
                     Request_failed_retrying (page_url env p) (cause (length (fetches s))) 0,
                     Request_failed_retrying (page_url env p) (cause (length (fetches s) + 1)) 1,
                     Request_failed_retrying (page_url env p) (cause (length (fetches s) + 2)) 2,
                     Failed_to_retrieve (page_url env p) (cause (length (fetches s) + 3))]\<rparr>)"
    by (simp add: scrape_page_def make_request_exhausted [OF assms] log_event_def
        numeral_eq_Suc)
  show ?thesis
    by (simp add: sp) (simp add: log_event_def)
qed



theorem failed_listing_page_ends_pagination_witness:
  "(\<forall>k. session_get (site offline []) k (page_url (site offline []) 1) = Inl (py ''timeout'')) \<and>
   collect_links (site offline []) [1, 2, 3] [] fresh =
     ([], fresh\<lparr>fetches := replicate 4 (py ''https://www.unegui.mn/l/''),
                logged := [Scraping_page 1,
                  Request_failed_retrying (py ''https://www.unegui.mn/l/'') (py ''timeout'') 0,
                  Request_failed_retrying (py ''https://www.unegui.mn/l/'') (py ''timeout'') 1,
                  Request_failed_retrying (py ''https://www.unegui.mn/l/'') (py ''timeout'') 2,
                  Failed_to_retrieve (py ''https://www.unegui.mn/l/'') (py ''timeout''),
                  No_more_links]\<rparr>)"
proof -
  have h: "\<forall>k. session_get (site offline []) k (page_url (site offline []) 1) = Inl (py ''timeout'')"
    by (simp add: site_def offline_def)
  show ?thesis
    using h failed_listing_page_ends_pagination [OF h, of fresh "[2, 3]" "[]"]
    by (simp add: fresh_def page_url_def site_def del: collect_links.simps)
qed

subsection \<open>The address\<close>

lemma py_contains_single: "py_contains [d] t \<longleftrightarrow> d \<in> set t"
  by (induction t) (auto simp: startswith_def)

lemma split_from_single:
  "split_from [d] cur t =
     (if d \<in> set t
      then (cur @ takeWhile (\<lambda>c. c \<noteq> d) t) # split_from [d] [] (tl (dropWhile (\<lambda>c. c \<noteq> d) t))
      else [cur @ t])"
  by (induction t arbitrary: cur) (auto simp: startswith_def)

lemma takeWhile_not_member: "d \<notin> set t \<Longrightarrow> takeWhile (\<lambda>c. c \<noteq> d) t = t"
  by (induction t) auto

lemma split_from_single_hd:
  "\<exists>rest. split_from [d] cur t = (cur @ takeWhile (\<lambda>c. c \<noteq> d) t) # rest"
  by (subst split_from_single) (simp add: takeWhile_not_member)

lemma split_dash_parts:
  assumes "8212 \<in> set t"
  shows "\<exists>rest. split_from EM_DASH [] t = before_dash t # before_dash (after_dash t) # rest"
proof -
  from split_from_single_hd [of 8212 "[]" "after_dash t"] obtain rest where
    "split_from EM_DASH [] (after_dash t) = before_dash (after_dash t) # rest"
    by (auto simp: before_dash_def)
  with assms have "split_from EM_DASH [] t = before_dash t # before_dash (after_dash t) # rest"
    by (subst split_from_single) (simp add: before_dash_def after_dash_def)
  then show ?thesis by blast
qed

lemma handle_address_found:
  assumes "soup_find env soup (Query (py ''span'') (With_attr (py ''itemprop'') (py ''address''))) = Some address"
  shows "handle_address env soup url (ad, s) =
     (if 8212 \<in> set (tag_text env address)
      then (AList.update K_Bairshil (py_strip (before_dash (after_dash (tag_text env address))))
             (AList.update K_Duureg (py_strip (before_dash (tag_text env address))) ad), s)
      else (ad, s))"
proof (cases "8212 \<in> set (tag_text env address)")
  case True
  from split_dash_parts [OF True] obtain rest where
    "split_from EM_DASH [] (tag_text env address) =
       before_dash (tag_text env address) # before_dash (after_dash (tag_text env address)) # rest"
    by blast
  then show ?thesis
    using True assms
    by (simp add: handle_address_def py_contains_single py_split_def py_index_def)
next
  case False
  then show ?thesis
    using assms by (simp add: handle_address_def py_contains_single)
qed

lemma before_dash_single: "8212 \<notin> set a \<Longrightarrow> before_dash (a @ 8212 # b) = a"
  unfolding before_dash_def by (induction a) auto

lemma after_dash_single: "8212 \<notin> set a \<Longrightarrow> after_dash (a @ 8212 # b) = b"
  unfolding after_dash_def by (induction a) auto

lemma before_dash_none: "8212 \<notin> set b \<Longrightarrow> before_dash b = b"
  by (simp add: before_dash_def takeWhile_not_member)


text \<open>
  C7 (as amended). For a record \<open>scrape_ad\<close> returns from a document that has an address
  element: when the text of the element contains an em-dash, the district is the stripped
  text before the first em-dash and the location is the stripped text between the first
  em-dash and the next one, or the end of the text when there is no other; so with exactly
  one em-dash the location is the stripped text after it. Without an em-dash both fields
  stay \<open>N/A\<close>. In both cases the address block logs nothing: no exception is raised in it.
\<close>

theorem address_is_split_at_the_dashes:
  assumes "scrape_ad env s url = (Some ad, s1)"
    and "make_request env s url 0 = (Some body, s0)"
    and "BeautifulSoup env body = Inr doc"
    and "soup_find env doc (Query (py ''span'') (With_attr (py ''itemprop'') (py ''address''))) = Some address"
  shows "(py_contains EM_DASH (tag_text env address) \<longrightarrow>
            map_of ad K_Duureg = Some (py_strip (before_dash (tag_text env address))) \<and>
            map_of ad K_Bairshil = Some (py_strip (before_dash (after_dash (tag_text env address))))) \<and>
         (\<forall>a b. tag_text env address = a @ EM_DASH @ b \<and> \<not> py_contains EM_DASH a \<and> \<not> py_contains EM_DASH b \<longrightarrow>
            map_of ad K_Duureg = Some (py_strip a) \<and> map_of ad K_Bairshil = Some (py_strip b)) \<and>
         (\<not> py_contains EM_DASH (tag_text env address) \<longrightarrow>
            map_of ad K_Duureg = Some NA \<and> map_of ad K_Bairshil = Some NA) \<and>
         s1 = save_scraped_url s0 url"
proof -
  let ?t = "tag_text env address"
  from scrape_ad_SomeD [OF assms(1)] assms(2,3) obtain ad0 ad1 s2 where
    n: "new_ad_data env doc url = Inr ad0" and
    h: "handle_address env doc url (ad0, s0) = (ad1, s2)" and
    ad: "ad = extract_posted env doc (extract_description env doc (extract_title env doc
             (extract_rooms env doc (extract_price env doc (extract_views env doc ad1)))))" and
    s1: "s1 = save_scraped_url s2 url"
    by auto
  have keys: "map fst ad0 = FIELDS" using n by (rule new_ad_data_keys)
  have na: "map_of ad0 K_Duureg = Some NA" "map_of ad0 K_Bairshil = Some NA"
    using n by (auto simp: new_ad_data_def split: sum.splits)
  have final: "map_of ad K_Duureg = map_of ad1 K_Duureg" "map_of ad K_Bairshil = map_of ad1 K_Bairshil"
    by (simp_all add: ad extract_other)
  have "(ad1, s2) = (if 8212 \<in> set ?t
      then (AList.update K_Bairshil (py_strip (before_dash (after_dash ?t)))
             (AList.update K_Duureg (py_strip (before_dash ?t)) ad0), s0)
      else (ad0, s0))"
    using handle_address_found [OF assms(4), of url ad0 s0] h by simp
  then have found: "ad1 = (if 8212 \<in> set ?t
      then AList.update K_Bairshil (py_strip (before_dash (after_dash ?t)))
             (AList.update K_Duureg (py_strip (before_dash ?t)) ad0)
      else ad0)" and world: "s2 = s0"
    by (auto split: if_splits)
  have dash: "8212 \<in> set ?t \<longrightarrow>
            map_of ad K_Duureg = Some (py_strip (before_dash ?t)) \<and>
            map_of ad K_Bairshil = Some (py_strip (before_dash (after_dash ?t)))"
    using found by (simp add: final update_conv')
  have nodash: "8212 \<notin> set ?t \<longrightarrow> map_of ad K_Duureg = Some NA \<and> map_of ad K_Bairshil = Some NA"
    using found na by (simp add: final)
  have one: "\<forall>a b. ?t = a @ EM_DASH @ b \<and> 8212 \<notin> set a \<and> 8212 \<notin> set b \<longrightarrow>
            map_of ad K_Duureg = Some (py_strip a) \<and> map_of ad K_Bairshil = Some (py_strip b)"
  proof (intro allI impI)
    fix a b
    assume e: "?t = a @ EM_DASH @ b \<and> 8212 \<notin> set a \<and> 8212 \<notin> set b"
    then have "8212 \<in> set ?t" by simp
    with dash e show "map_of ad K_Duureg = Some (py_strip a) \<and> map_of ad K_Bairshil = Some (py_strip b)"
      by (simp add: before_dash_single after_dash_single before_dash_none)
  qed
  show ?thesis
    using dash nodash one by (simp add: py_contains_single s1 world)
qed



lemmas ad_eval = scrape_ad_def make_request.simps site_def fresh_def new_ad_data_def
      generate_ad_id_def utf8_char_def get_text_value_def get_value_chars_def lookup_first_def
      lookup_all_def handle_address_def startswith_def py_split_def py_index_def py_strip_def
      py_isspace_def extract_views_def extract_price_def extract_rooms_def extract_title_def
      extract_description_def extract_posted_def save_scraped_url_def py_def NA_def

theorem address_is_split_at_the_dashes_witness:
  "scrape_ad (site online [(py ''ad 1'', ad_page)]) fresh (ORIGIN @ py ''/adv/1'') =
     (Some ad_1,
      fresh\<lparr>scraped_urls := {ORIGIN @ py ''/adv/1''},
            cache_file := Some (ORIGIN @ py ''/adv/1'' @ [10]),
            fetches := [ORIGIN @ py ''/adv/1'']\<rparr>) \<and>
   make_request (site online [(py ''ad 1'', ad_page)]) fresh (ORIGIN @ py ''/adv/1'') 0 =
     (Some (py ''ad 1''), fresh\<lparr>fetches := [ORIGIN @ py ''/adv/1'']\<rparr>) \<and>
   BeautifulSoup (site online [(py ''ad 1'', ad_page)]) (py ''ad 1'') = Inr ad_page \<and>
   soup_find (site online [(py ''ad 1'', ad_page)]) ad_page
       (Query (py ''span'') (With_attr (py ''itemprop'') (py ''address''))) =
     Some (Tag (py ''Chingeltei '' @ EM_DASH @ py ''  64th khoroolol, unit 5'') [] [] []) \<and>
   \<not> py_contains EM_DASH (py ''Chingeltei '') \<and>
   \<not> py_contains EM_DASH (py ''  64th khoroolol, unit 5'') \<and>
   map_of ad_1 K_Duureg = Some (py ''Chingeltei'') \<and>
   map_of ad_1 K_Bairshil = Some (py ''64th khoroolol, unit 5'')"
proof -
  let ?E = "site online [(py ''ad 1'', ad_page)]"
  let ?a = "Tag (py ''Chingeltei '' @ EM_DASH @ py ''  64th khoroolol, unit 5'') [] [] []"
  have h2: "make_request ?E fresh (ORIGIN @ py ''/adv/1'') 0 =
     (Some (py ''ad 1''), fresh\<lparr>fetches := [ORIGIN @ py ''/adv/1'']\<rparr>)"
    by (simp add: make_request.simps site_def online_def fresh_def py_def)
  have h3: "BeautifulSoup ?E (py ''ad 1'') = Inr ad_page"
    by (simp add: site_def)
  have h4: "soup_find ?E ad_page (Query (py ''span'') (With_attr (py ''itemprop'') (py ''address''))) = Some ?a"
    by (simp add: site_def lookup_first_def lookup_all_def ad_page_def py_def)
  have t: "tag_text ?E ?a = py ''Chingeltei '' @ EM_DASH @ py ''  64th khoroolol, unit 5''"
    by (simp add: site_def)
  have n: "\<not> py_contains EM_DASH (py ''Chingeltei '')"
    "\<not> py_contains EM_DASH (py ''  64th khoroolol, unit 5'')"
    by (simp_all add: py_def startswith_def)
  have s: "py_strip (py ''Chingeltei '') = py ''Chingeltei''"
    "py_strip (py ''  64th khoroolol, unit 5'') = py ''64th khoroolol, unit 5''"
    by (simp_all add: py_def py_strip_def py_isspace_def)
  from address_is_split_at_the_dashes [OF scrape_ad_1 h2 h3 h4] t n
  have "map_of ad_1 K_Duureg = Some (py_strip (py ''Chingeltei '')) \<and>
        map_of ad_1 K_Bairshil = Some (py_strip (py ''  64th khoroolol, unit 5''))"
    by blast
  then show ?thesis
    using scrape_ad_1 h2 h3 h4 n by (simp only: s) simp
qed


text \<open>
  C7 as stated fails for an address with two em-dashes: the location is the middle piece,
  which is neither the stripped text after the first em-dash nor the one after the last.
\<close>

theorem location_is_not_the_text_after_the_dash:
  "py_contains EM_DASH two_dashes \<and>
   tag_text (site online [(py ''ad 2'', ad_page_2)]) (Tag two_dashes [] [] []) =
     py ''UB '' @ EM_DASH @ py '' Khan-Uul '' @ EM_DASH @ py '' Zaisan'' \<and>
   fst (scrape_ad (site online [(py ''ad 2'', ad_page_2)]) fresh (ORIGIN @ py ''/adv/2'')) = Some ad_2 \<and>
   map_of ad_2 K_Duureg = Some (py ''UB'') \<and>
   map_of ad_2 K_Bairshil = Some (py ''Khan-Uul'') \<and>
   map_of ad_2 K_Bairshil \<noteq> Some (py_strip (py '' Khan-Uul '' @ EM_DASH @ py '' Zaisan'')) \<and>
   map_of ad_2 K_Bairshil \<noteq> Some (py_strip (py '' Zaisan''))"
  by (simp add: ad_eval online_def ad_page_2_def ad_2_def two_dashes_def)

subsection \<open>The identifier of an ad\<close>

lemma scrape_ad_ad_id:
  assumes "scrape_ad env s url = (Some ad, s1)"
  shows "\<exists>i. generate_ad_id env url = Inr i \<and> map_of ad K_ad_id = Some i"
proof -
  from scrape_ad_SomeD [OF assms] obtain body s0 soup ad0 ad1 s2 where
    n: "new_ad_data env soup url = Inr ad0" and
    h: "handle_address env soup url (ad0, s0) = (ad1, s2)" and
    ad: "ad = extract_posted env soup (extract_description env soup (extract_title env soup
             (extract_rooms env soup (extract_price env soup (extract_views env soup ad1)))))"
    by blast
  from n obtain i where i: "generate_ad_id env url = Inr i" "map_of ad0 K_ad_id = Some i"
    by (auto simp: new_ad_data_def split: sum.splits)
  have "map_of ad1 K_ad_id = map_of ad0 K_ad_id"
    using handle_address_other [of K_ad_id env soup url ad0 s0] h by simp
  then have "map_of ad K_ad_id = Some i"
    by (simp add: ad extract_other i)
  with i show ?thesis by blast
qed


text \<open>
  C6. \<open>generate_ad_id\<close> reads nothing but the URL and the hash function: two
  environments with the same \<open>md5_hexdigest\<close> give the same result for the same URL,
  whatever the network, the documents, the date and the state are. The records two runs
  return for one URL carry the same \<open>ad_id\<close>, the one \<open>generate_ad_id\<close> computes.
\<close>

theorem ad_id_depends_on_url_only:
  "(md5_hexdigest e1 = md5_hexdigest e2 \<longrightarrow> generate_ad_id e1 u = generate_ad_id e2 u) \<and>
   (md5_hexdigest e1 = md5_hexdigest e2 \<and>
    scrape_ad e1 s1 u = (Some a1, t1) \<and> scrape_ad e2 s2 u = (Some a2, t2) \<longrightarrow>
      map_of a1 K_ad_id = map_of a2 K_ad_id \<and> (\<exists>i. map_of a1 K_ad_id = Some i \<and> generate_ad_id e1 u = Inr i))"
proof (intro conjI impI)
  assume "md5_hexdigest e1 = md5_hexdigest e2"
  then show "generate_ad_id e1 u = generate_ad_id e2 u"
    by (simp add: generate_ad_id_def split: option.splits)
next
  assume a: "md5_hexdigest e1 = md5_hexdigest e2 \<and>
    scrape_ad e1 s1 u = (Some a1, t1) \<and> scrape_ad e2 s2 u = (Some a2, t2)"
  then have g: "generate_ad_id e1 u = generate_ad_id e2 u"
    by (simp add: generate_ad_id_def split: option.splits)
  from a scrape_ad_ad_id [of e1 s1 u a1 t1] obtain i where
    i: "generate_ad_id e1 u = Inr i" "map_of a1 K_ad_id = Some i" by blast
  from a scrape_ad_ad_id [of e2 s2 u a2 t2] obtain j where
    j: "generate_ad_id e2 u = Inr j" "map_of a2 K_ad_id = Some j" by blast
  from g i j show "map_of a1 K_ad_id = map_of a2 K_ad_id" by simp
  from i show "\<exists>i. map_of a1 K_ad_id = Some i \<and> generate_ad_id e1 u = Inr i" by blast
qed


lemma scrape_ad_1_next_day:
  "scrape_ad next_day (fresh\<lparr>fetches := [py ''https://www.unegui.mn/l/'']\<rparr>) (ORIGIN @ py ''/adv/1'') =
     (Some (AList.update K_Scraped_date (py ''04/11/2026'') ad_1),
      fresh\<lparr>scraped_urls := {ORIGIN @ py ''/adv/1''},
            cache_file := Some (ORIGIN @ py ''/adv/1'' @ [10]),
            fetches := [py ''https://www.unegui.mn/l/'', ORIGIN @ py ''/adv/1'']\<rparr>)"
  by (simp add: ad_eval next_day_def online_def ad_1_def ad_page_def)

theorem ad_id_depends_on_url_only_witness:
  "md5_hexdigest (site online [(py ''ad 1'', ad_page)]) = md5_hexdigest next_day \<and>
   scrape_ad (site online [(py ''ad 1'', ad_page)]) fresh (ORIGIN @ py ''/adv/1'') =
     (Some ad_1,
      fresh\<lparr>scraped_urls := {ORIGIN @ py ''/adv/1''},
            cache_file := Some (ORIGIN @ py ''/adv/1'' @ [10]),
            fetches := [ORIGIN @ py ''/adv/1'']\<rparr>) \<and>
   scrape_ad next_day (fresh\<lparr>fetches := [py ''https://www.unegui.mn/l/'']\<rparr>) (ORIGIN @ py ''/adv/1'') =
     (Some (AList.update K_Scraped_date (py ''04/11/2026'') ad_1),
      fresh\<lparr>scraped_urls := {ORIGIN @ py ''/adv/1''},
            cache_file := Some (ORIGIN @ py ''/adv/1'' @ [10]),
            fetches := [py ''https://www.unegui.mn/l/'', ORIGIN @ py ''/adv/1'']\<rparr>) \<and>
   map_of ad_1 K_ad_id = map_of (AList.update K_Scraped_date (py ''04/11/2026'') ad_1) K_ad_id \<and>
   generate_ad_id (site online [(py ''ad 1'', ad_page)]) (ORIGIN @ py ''/adv/1'') =
     generate_ad_id next_day (ORIGIN @ py ''/adv/1'')"
proof -
  have h: "md5_hexdigest (site online [(py ''ad 1'', ad_page)]) = md5_hexdigest next_day"
    by (simp add: next_day_def)
  show ?thesis
    using h scrape_ad_1 scrape_ad_1_next_day
      ad_id_depends_on_url_only [of "site online [(py ''ad 1'', ad_page)]" next_day
        "ORIGIN @ py ''/adv/1''" fresh ad_1 _ "fresh\<lparr>fetches := [py ''https://www.unegui.mn/l/'']\<rparr>"
        "AList.update K_Scraped_date (py ''04/11/2026'') ad_1"]
    by blast
qed


subsection \<open>The store\<close>

lemma save_data_file:
  "map_of (csv_files (save_data env s all_data)) f =
     (if f = output_file env then Some (to_csv env all_data) else map_of (csv_files s) f)"
  by (simp add: save_data_def log_event_def update_conv')


text \<open>
  C8. \<open>load_existing_data\<close> returns the empty table and leaves the state as it is when
  no file of the directory has the name of a snapshot; when the latest snapshot cannot be
  read it returns the empty table too, and the error only becomes a warning in the log.
  After \<open>save_data\<close> the output file holds the table just written, whatever it held
  before, and every other file is untouched.
\<close>

theorem store_load_and_save:
  "(filter (\<lambda>f. startswith f CSV_PREFIX \<and> endswith f CSV_SUFFIX) (map fst (csv_files s)) = [] \<longrightarrow>
      load_existing_data env s = ([], s)) \<and>
   (filter (\<lambda>f. startswith f CSV_PREFIX \<and> endswith f CSV_SUFFIX) (map fst (csv_files s)) = f # fs \<and>
    map_of (csv_files s) (fold max fs f) = Some content \<and> read_csv env content = Inl e \<longrightarrow>
      load_existing_data env s = ([], log_event (Could_not_load e) s)) \<and>
   map_of (csv_files (save_data env s all_data)) (output_file env) = Some (to_csv env all_data) \<and>
   (\<forall>g. g \<noteq> output_file env \<longrightarrow>
      map_of (csv_files (save_data env s all_data)) g = map_of (csv_files s) g) \<and>
   written (save_data env s all_data) = written s @ [(output_file env, all_data)]"
  by (simp add: load_existing_data_def save_data_file) (simp add: save_data_def log_event_def)


theorem store_load_and_save_witness:
  "load_existing_data (site offline []) fresh = ([], fresh) \<and>
   filter (\<lambda>f. startswith f CSV_PREFIX \<and> endswith f CSV_SUFFIX) (map fst (csv_files stale_disk)) =
     [py ''unegui_sales_data_20261103.csv''] \<and>
   map_of (csv_files stale_disk) (fold max [] (py ''unegui_sales_data_20261103.csv'')) = Some (py ''not a table'') \<and>
   read_csv (site offline []) (py ''not a table'') = Inl (py ''unreadable'') \<and>
   load_existing_data (site offline []) stale_disk = ([], log_event (Could_not_load (py ''unreadable'')) stale_disk) \<and>
   map_of (csv_files (save_data (site offline []) stale_disk [ad_1])) (py ''unegui_sales_data_20261103.csv'') =
     Some (to_csv (site offline []) [ad_1])"
proof -
  have h1: "filter (\<lambda>f. startswith f CSV_PREFIX \<and> endswith f CSV_SUFFIX) (map fst (csv_files fresh)) = []"
    by (simp add: fresh_def)
  have h2: "filter (\<lambda>f. startswith f CSV_PREFIX \<and> endswith f CSV_SUFFIX) (map fst (csv_files stale_disk)) =
     [py ''unegui_sales_data_20261103.csv'']"
    by (simp add: stale_disk_def fresh_def startswith_def endswith_def py_def)
  have h3: "map_of (csv_files stale_disk) (fold max [] (py ''unegui_sales_data_20261103.csv'')) = Some (py ''not a table'')"
    by (simp add: stale_disk_def fresh_def)
  have h4: "read_csv (site offline []) (py ''not a table'') = Inl (py ''unreadable'')"
    by (simp add: site_def)
  have o: "output_file (site offline []) = py ''unegui_sales_data_20261103.csv''"
    by (simp add: output_file_def site_def py_def)
  show ?thesis
    using h1 h2 h3 h4
      store_load_and_save [where s = fresh and env = "site offline []"]
      store_load_and_save [where s = stale_disk and f = "py ''unegui_sales_data_20261103.csv''"
        and fs = "[]" and content = "py ''not a table''" and env = "site offline []"
        and e = "py ''unreadable''" and all_data = "[ad_1]"]
    by (simp add: o)
qed

subsection \<open>Checkpoints\<close>





















subsection \<open>The cache is written before the store\<close>















end
